theory Spec2Isabelle
  imports Complex_Main "HOL-Library.Multiset"
begin

section \<open>Python strings\<close>

text \<open>
  A Python \<open>str\<close> is a sequence of code points. It is modelled as a \<open>string\<close> in which
  each \<open>char\<close> is one code point, so the strings of the model are the Python strings over
  the code points 0 to 255, and \<open>length\<close> is Python's \<open>len\<close>. On this range the character
  classes below are Python's: \<open>str.isspace\<close> (which \<open>strip\<close>, \<open>split\<close> and the class
  \<open>\s\<close> use) holds of 9 to 13, 28 to 32, 133 and 160; \<open>str.isdigit\<close> of 48 to 57, 178,
  179 and 185; the class \<open>\d\<close> of 48 to 57 only; \<open>str.lower\<close> adds 32 to 65 to 90, 192 to
  214 and 216 to 222 and leaves the rest; the class \<open>\w\<close> is listed at \<open>isword\<close>.

  The message literals of the source begin with symbols beyond this range. Each is a
  constant of the model, a prefix standing for the symbol (it holds the UTF-8 bytes of
  the symbol); the character classes are never applied to a message.
\<close>

definition code_point :: "char \<Rightarrow> nat" where
  \<comment> \<open>\<open>ord(c)\<close>\<close>
  "code_point c = of_char c"

definition in_range :: "nat \<Rightarrow> nat \<Rightarrow> char \<Rightarrow> bool" where
  "in_range lo hi c = (lo \<le> code_point c \<and> code_point c \<le> hi)"

definition no_entry_sign :: string where
  \<comment> \<open>U+1F6AB\<close>
  "no_entry_sign = [CHR 0xF0, CHR 0x9F, CHR 0x9A, CHR 0xAB]"

definition warning_sign :: string where
  \<comment> \<open>U+26A0 U+FE0F\<close>
  "warning_sign = [CHR 0xE2, CHR 0x9A, CHR 0xA0, CHR 0xEF, CHR 0xB8, CHR 0x8F]"

definition info_sign :: string where
  \<comment> \<open>U+2139 U+FE0F\<close>
  "info_sign = [CHR 0xE2, CHR 0x84, CHR 0xB9, CHR 0xEF, CHR 0xB8, CHR 0x8F]"

definition cross_mark :: string where
  \<comment> \<open>U+274C\<close>
  "cross_mark = [CHR 0xE2, CHR 0x9D, CHR 0x8C]"

definition isspace :: "char \<Rightarrow> bool" where
  \<comment> \<open>\<open>str.isspace\<close> and the class \<open>\s\<close>: tab, LF, VT, FF, CR, FS, GS, RS, US, space,
      NEL (U+0085) and the no-break space (U+00A0)\<close>
  "isspace c = (c \<in> set [CHR 0x09, CHR 0x0A, CHR 0x0B, CHR 0x0C, CHR 0x0D,
                          CHR 0x1C, CHR 0x1D, CHR 0x1E, CHR 0x1F, CHR 0x20,
                          CHR 0x85, CHR 0xA0])"

definition isdigit :: "char \<Rightarrow> bool" where
  \<comment> \<open>\<open>str.isdigit\<close>: the decimal digits and the superscripts two, three and one
      (U+00B2, U+00B3, U+00B9)\<close>
  "isdigit c = (c \<in> set (''0123456789'' @ [CHR 0xB2, CHR 0xB3, CHR 0xB9]))"

definition re_digit :: "char \<Rightarrow> bool" where
  \<comment> \<open>the class \<open>\d\<close>: the decimal digits (category Nd) only\<close>
  "re_digit c = (c \<in> set ''0123456789'')"

definition has_lowercase :: "char \<Rightarrow> bool" where
  \<comment> \<open>the characters \<open>str.lower\<close> changes: A to Z, and U+00C0 to U+00DE without the
      multiplication sign U+00D7\<close>
  "has_lowercase c = (in_range 65 90 c \<or> in_range 192 214 c \<or> in_range 216 222 c)"

definition isword :: "char \<Rightarrow> bool" where
  \<comment> \<open>the class \<open>\w\<close>: the underscore and what \<open>str.isalnum\<close> holds of, that is digits,
      letters, the ordinal indicators, the micro sign, the superscript digits and the
      vulgar fractions\<close>
  "isword c =
     (in_range 48 57 c \<or> in_range 65 90 c \<or> code_point c = 95 \<or> in_range 97 122 c
      \<or> code_point c = 170 \<or> in_range 178 179 c \<or> code_point c = 181
      \<or> in_range 185 186 c \<or> in_range 188 190 c
      \<or> in_range 192 214 c \<or> in_range 216 246 c \<or> in_range 248 255 c)"

definition lower_char :: "char \<Rightarrow> char" where
  "lower_char c = (if has_lowercase c then char_of (code_point c + 32) else c)"

definition lower :: "string \<Rightarrow> string" where
  \<comment> \<open>\<open>s.lower()\<close>\<close>
  "lower s = map lower_char s"

fun startswith :: "string \<Rightarrow> string \<Rightarrow> bool" where
  \<comment> \<open>\<open>s.startswith(p)\<close>, with the text first\<close>
  "startswith s [] = True"
| "startswith [] (p # ps) = False"
| "startswith (c # cs) (p # ps) = (c = p \<and> startswith cs ps)"

fun py_in :: "string \<Rightarrow> string \<Rightarrow> bool" where
  \<comment> \<open>\<open>sub in s\<close>: \<open>sub\<close> occurs in \<open>s\<close> as a contiguous substring\<close>
  "py_in sub [] = (sub = [])"
| "py_in sub (c # cs) = (startswith (c # cs) sub \<or> py_in sub cs)"

fun join :: "string \<Rightarrow> string list \<Rightarrow> string" where
  \<comment> \<open>\<open>sep.join(xs)\<close>\<close>
  "join sep [] = []"
| "join sep [x] = x"
| "join sep (x # y # ys) = x @ sep @ join sep (y # ys)"

definition strip :: "string \<Rightarrow> string" where
  \<comment> \<open>\<open>s.strip()\<close>\<close>
  "strip s = rev (dropWhile isspace (rev (dropWhile isspace s)))"

definition digit_char :: "nat \<Rightarrow> char" where
  "digit_char d = char_of (48 + d)"

fun str_nat :: "nat \<Rightarrow> string" where
  \<comment> \<open>\<open>str(n)\<close> of a non-negative integer, as an f-string prints it\<close>
  "str_nat n = (if n < 10 then [digit_char n] else str_nat (n div 10) @ [digit_char (n mod 10)])"

declare str_nat.simps [simp del]

definition count_char :: "char \<Rightarrow> string \<Rightarrow> nat" where
  \<comment> \<open>\<open>s.count(c)\<close> for a one-character \<open>c\<close>\<close>
  "count_char c s = length (filter (\<lambda>d. d = c) s)"

section \<open>The execution artifacts\<close>

text \<open>
  The docstrings give the four artifacts their types: \<open>result\<close> is a value or Python's
  \<open>None\<close>; \<open>metrics\<close> is a dict from string keys to values that may be \<open>None\<close>, kept as
  the list of its items in insertion order (keys distinct); \<open>summary_text\<close> is a string;
  \<open>insights\<close> is a list of strings. The scorer and the validator are first given on
  arguments of these types, where no operation of theirs can raise; the validator on
  values of any type follows further down.

  Of a result value the code asks three things: whether it is a \<open>pandas.DataFrame\<close>
  (then its number of rows, \<open>len(result)\<close>, and of columns, \<open>len(result.columns)\<close>),
  and otherwise whether it has \<open>__len__\<close> (a Series, a list, a string) and its length.
\<close>

datatype result_value =
    DataFrame nat nat   \<comment> \<open>rows, columns\<close>
  | Sized nat           \<comment> \<open>not a DataFrame, has \<open>__len__\<close>: the length\<close>
  | Scalar              \<comment> \<open>not a DataFrame, no \<open>__len__\<close>\<close>

type_synonym 'v metrics = "(string \<times> 'v option) list"

fun has_len :: "result_value \<Rightarrow> bool" where
  \<comment> \<open>\<open>hasattr(result, '__len__')\<close>\<close>
  "has_len (DataFrame r c) = True"
| "has_len (Sized n) = True"
| "has_len Scalar = False"

fun len_result :: "result_value \<Rightarrow> nat" where
  \<comment> \<open>\<open>len(result)\<close>, called only where \<open>has_len\<close> holds\<close>
  "len_result (DataFrame r c) = r"
| "len_result (Sized n) = n"
| "len_result Scalar = 0"

definition dict_put :: "'k \<Rightarrow> 'a \<Rightarrow> ('k \<times> 'a) list \<Rightarrow> ('k \<times> 'a) list" where
  \<comment> \<open>\<open>d[k] = v\<close> on the items of a dict: a new key goes last, an old key keeps its place\<close>
  "dict_put k v d =
     (if k \<in> set (map fst d) then map (\<lambda>p. if fst p = k then (k, v) else p) d
      else d @ [(k, v)])"

definition has_number :: "string \<Rightarrow> bool" where
  \<comment> \<open>\<open>any(char.isdigit() for char in str(insight))\<close>\<close>
  "has_number insight = list_ex isdigit insight"

definition insights_with_numbers :: "string list \<Rightarrow> nat" where
  \<comment> \<open>\<open>sum(1 for insight in insights if any(...))\<close>\<close>
  "insights_with_numbers insights = length (filter has_number insights)"

section \<open>Quality Scorer: \<open>calculate_quality_score\<close>\<close>

text \<open>
  The running \<open>score\<close> is an integer until the summary block adds \<open>len(summary_text) / 5\<close>,
  a float. Every value it takes is a multiple of \<open>1/5\<close> below 128, on which the rounding
  of double arithmetic is far smaller than \<open>1/5\<close>, so \<open>int(score)\<close> is the integer part
  of the exact sum: the score is kept as a rational.
\<close>

definition metrics_quality :: "rat \<Rightarrow> 'v metrics \<Rightarrow> rat" where
  "metrics_quality score metrics =
     (if metrics \<noteq> [] then
        (let metrics_count = length metrics in
         if metrics_count \<ge> 5 then score + 30
         else score + of_nat (metrics_count * 6))
      else score)"

definition insights_quality :: "rat \<Rightarrow> string list \<Rightarrow> rat" where
  "insights_quality score insights =
     (if insights \<noteq> [] then
        (let insights_count = length insights;
             score = (if insights_count \<ge> 5 then score + 20
                      else score + of_nat (insights_count * 4))
         in score + of_nat (min 10 (insights_with_numbers insights * 2)))
      else score)"

definition summary_quality :: "rat \<Rightarrow> string \<Rightarrow> rat" where
  "summary_quality score summary_text =
     (if summary_text \<noteq> [] then
        (if length summary_text \<ge> 100 then score + 20
         else score + of_nat (length summary_text) / 5)
      else score)"

definition result_quality :: "rat \<Rightarrow> result_value option \<Rightarrow> rat" where
  "result_quality score result =
     (case result of
        None \<Rightarrow> score
      | Some (DataFrame rows cols) \<Rightarrow>
          (if rows > 0 then
             (let score = score + 15 in if cols > 1 then score + 5 else score)
           else score + 5)
      | Some _ \<Rightarrow> score + 10)"

definition quality_points :: "'v metrics \<Rightarrow> string list \<Rightarrow> string \<Rightarrow> result_value option \<Rightarrow> rat" where
  \<comment> \<open>the value of \<open>score\<close> when the last line is reached\<close>
  "quality_points metrics insights summary_text result =
     result_quality (summary_quality (insights_quality (metrics_quality 0 metrics) insights)
       summary_text) result"

definition py_int :: "rat \<Rightarrow> int" where
  \<comment> \<open>\<open>int(x)\<close>: truncation towards zero\<close>
  "py_int x = (if x \<ge> 0 then \<lfloor>x\<rfloor> else \<lceil>x\<rceil>)"

definition calculate_quality_score :: "'v metrics \<Rightarrow> string list \<Rightarrow> string \<Rightarrow> result_value option \<Rightarrow> int" where
  "calculate_quality_score metrics insights summary_text result =
     min 100 (py_int (quality_points metrics insights summary_text result))"

section \<open>Result Contract Validator: \<open>validate_execution_results\<close>\<close>

definition check_result :: "result_value option \<Rightarrow> bool \<times> string list" where
  "check_result result =
     (case result of
        None \<Rightarrow> (False, [cross_mark @ '' Result is None''])
      | Some r \<Rightarrow>
          (if has_len r \<and> len_result r = 0
           then (True, [warning_sign @ '' Result is empty - query may have found no matching data''])
           else (True, [])))"

definition check_metrics :: "'v metrics \<Rightarrow> bool \<times> string list" where
  "check_metrics metrics =
     (if metrics = [] then (False, [cross_mark @ '' Metrics dictionary is empty''])
      else if length metrics < 5 then
        (True, [warning_sign @ '' Only '' @ str_nat (length metrics)
                  @ '' metrics provided, recommended minimum is 5''])
      else (True, []))"

definition check_none_metrics :: "'v metrics \<Rightarrow> string list" where
  "check_none_metrics metrics =
     (if metrics \<noteq> [] then
        (let none_metrics = map fst (filter (\<lambda>(k, v). v = None) metrics) in
         if none_metrics \<noteq> []
         then [warning_sign @ '' Metrics contain None values: '' @ join '', '' none_metrics]
         else [])
      else [])"

definition check_summary :: "string \<Rightarrow> bool \<times> string list" where
  "check_summary summary_text =
     (if summary_text = [] \<or> strip summary_text = []
      then (False, [cross_mark @ '' Summary text is empty''])
      else if length summary_text < 50
      then (True, [warning_sign @ '' Summary text is very short (less than 50 characters)''])
      else (True, []))"

definition check_insights :: "string list \<Rightarrow> bool \<times> string list" where
  "check_insights insights =
     (if insights = [] then (False, [cross_mark @ '' Insights list is empty''])
      else if length insights < 5 then
        (True, [warning_sign @ '' Only '' @ str_nat (length insights)
                  @ '' insights provided, recommended minimum is 5''])
      else (True, []))"

definition check_insight_numbers :: "string list \<Rightarrow> string list" where
  \<comment> \<open>\<open>insights_with_numbers < len(insights) * 0.6\<close>: the double product is below the
      exact one and rounds to it where it is an integer, so the comparison is the exact one\<close>
  "check_insight_numbers insights =
     (if insights \<noteq> [] then
        (if (of_nat (insights_with_numbers insights) :: rat) < of_nat (length insights) * (6 / 10)
         then [warning_sign @ '' Many insights lack specific numbers - they should include concrete data'']
         else [])
      else [])"

definition validate_execution_results ::
  "result_value option \<Rightarrow> 'v metrics \<Rightarrow> string \<Rightarrow> string list \<Rightarrow> bool \<times> string list" where
  "validate_execution_results result metrics summary_text insights =
     (let (v1, i1) = check_result result;
          (v2, i2) = check_metrics metrics;
          i3 = check_none_metrics metrics;
          (v4, i4) = check_summary summary_text;
          (v5, i5) = check_insights insights;
          i6 = check_insight_numbers insights
      in (v1 \<and> v2 \<and> v4 \<and> v5, i1 @ i2 @ i3 @ i4 @ i5 @ i6))"

section \<open>Relevance Selector: \<open>analyze_query_relevance\<close>\<close>

text \<open>
  Of a table the selector reads the column labels, \<open>df.columns\<close>, and which columns
  \<open>select_dtypes(include=['number'])\<close> keeps. A table set is a dict from names to tables,
  kept as the list of its items in insertion order (names distinct).
\<close>

datatype dtype = Number | Other

type_synonym table = "(string \<times> dtype) list"

fun split_from :: "string \<Rightarrow> string \<Rightarrow> string list" where
  \<comment> \<open>the word being read, then the text left\<close>
  "split_from w [] = (if w = [] then [] else [w])"
| "split_from w (c # cs) =
     (if isspace c then (if w = [] then split_from [] cs else w # split_from [] cs)
      else split_from (w @ [c]) cs)"

definition split :: "string \<Rightarrow> string list" where
  \<comment> \<open>\<open>s.split()\<close>: the maximal runs of characters that are not whitespace\<close>
  "split s = split_from [] s"

function replace :: "string \<Rightarrow> string \<Rightarrow> string \<Rightarrow> string" where
  \<comment> \<open>\<open>s.replace(old, new)\<close> for a non-empty \<open>old\<close>, with the text last: occurrences are
      replaced from the left and do not overlap\<close>
  "replace old new [] = []"
| "replace old new (c # cs) =
     (if old \<noteq> [] \<and> startswith (c # cs) old
      then new @ replace old new (drop (length old) (c # cs))
      else c # replace old new cs)"
  by pat_completeness auto
termination
  by (relation "measure (\<lambda>(old, new, s). length s)") (auto simp: Suc_le_eq)

definition keywords_map :: "(string \<times> string list) list" where
  "keywords_map =
     [(''country'', [''country'', ''nation'', ''destination'', ''origin'']),
      (''product'', [''product'', ''item'', ''commodity'', ''goods'', ''hs'', ''classification'']),
      (''value'', [''value'', ''amount'', ''price'', ''fob'', ''cost'', ''total'']),
      (''date'', [''date'', ''time'', ''year'', ''month'', ''period'']),
      (''quantity'', [''quantity'', ''volume'', ''weight'', ''units'']),
      (''enterprise'', [''enterprise'', ''company'', ''business'', ''firm'', ''exporter'', ''importer''])]"

definition keyword_score :: "string \<Rightarrow> string \<Rightarrow> nat" where
  \<comment> \<open>the loop over \<open>keywords_map.items()\<close>: 20 for each entry with a synonym in the query
      and a synonym in the column label\<close>
  "keyword_score query_lower col_lower =
     sum_list (map (\<lambda>(keyword, synonyms).
        if list_ex (\<lambda>syn. py_in syn query_lower) synonyms
        then (if list_ex (\<lambda>syn. py_in syn col_lower) synonyms then 20 else 0)
        else 0) keywords_map)"

definition column_score :: "string \<Rightarrow> string \<Rightarrow> nat" where
  \<comment> \<open>what one pass of the loop over \<open>df.columns\<close> adds to \<open>score\<close>\<close>
  "column_score query_lower col =
     (let query_words = set (split query_lower);
          col_lower = lower col;
          col_words = set (split (replace ''_'' '' '' col_lower));
          word_overlap = card (query_words \<inter> col_words)
      in (if py_in col_lower query_lower then 50 else 0)
         + word_overlap * 10
         + keyword_score query_lower col_lower)"

definition table_score :: "string \<Rightarrow> string \<Rightarrow> table \<Rightarrow> nat" where
  \<comment> \<open>the body of the loop over \<open>dataframes_dict.items()\<close>\<close>
  "table_score query df_name df =
     (let query_lower = lower query;
          clean_df_name = lower (replace ''_'' '' '' (replace ''df_'' [] df_name));
          score = (if py_in clean_df_name query_lower then 100 else 0);
          score = score + sum_list (map (\<lambda>(col, ty). column_score query_lower col) df);
          score = (if py_in ''total'' query_lower \<or> py_in ''sum'' query_lower
                      \<or> py_in ''calculate'' query_lower
                   then (let numeric_cols = filter (\<lambda>(col, ty). ty = Number) df
                         in score + length numeric_cols * 5)
                   else score)
      in score)"

definition relevance_scores :: "string \<Rightarrow> (string \<times> table) list \<Rightarrow> (string \<times> nat) list" where
  \<comment> \<open>the dict filled by the loop, as its items\<close>
  "relevance_scores query dataframes_dict =
     fold (\<lambda>(df_name, df) scores. dict_put df_name (table_score query df_name df) scores)
       dataframes_dict []"

definition sorted_dfs :: "string \<Rightarrow> (string \<times> table) list \<Rightarrow> (string \<times> nat) list" where
  \<comment> \<open>\<open>sorted(items, key=lambda x: x[1], reverse=True)\<close>: Python's sort is stable, also
      with \<open>reverse=True\<close>, so equal scores keep the order of the items\<close>
  "sorted_dfs query dataframes_dict =
     sort_key (\<lambda>x. - int (snd x)) (relevance_scores query dataframes_dict)"

definition analyze_query_relevance :: "string \<Rightarrow> (string \<times> table) list \<Rightarrow> string list" where
  "analyze_query_relevance query dataframes_dict =
     (let relevant_dfs = map fst (filter (\<lambda>(df_name, score). score > 0)
                                    (sorted_dfs query dataframes_dict))
      in if relevant_dfs = [] then map fst dataframes_dict else relevant_dfs)"

section \<open>Static Validator: \<open>validate_code\<close>\<close>

subsection \<open>The regular expressions\<close>

text \<open>
  \<open>re.search\<close> tries the pattern at every position from the left. In each pattern of
  \<open>validate_code\<close> a repetition is followed by a character outside its class, so a
  greedy match cannot be shortened and matching at a position is a function.
\<close>

fun re_search :: "(string \<Rightarrow> bool) \<Rightarrow> string \<Rightarrow> bool" where
  "re_search here [] = here []"
| "re_search here (c # cs) = (here (c # cs) \<or> re_search here cs)"

definition assign_here :: "string \<Rightarrow> string \<Rightarrow> bool" where
  \<comment> \<open>\<open>{var}\s*=\<close> at the start of the text\<close>
  "assign_here var s =
     (startswith s var \<and>
      (case dropWhile isspace (drop (length var) s) of
         [] \<Rightarrow> False
       | c # _ \<Rightarrow> c = CHR ''=''))"

fun search_assign :: "string \<Rightarrow> bool \<Rightarrow> string \<Rightarrow> bool" where
  \<comment> \<open>\<open>re.search(r'\b{var}\s*=', code)\<close> for a \<open>var\<close> that begins with a word character:
      the flag says whether the character before is a word character, where \<open>\b\<close> fails\<close>
  "search_assign var prev_word [] = False"
| "search_assign var prev_word (c # cs) =
     ((\<not> prev_word \<and> assign_here var (c # cs)) \<or> search_assign var (isword c) cs)"

definition has_assignment :: "string \<Rightarrow> string \<Rightarrow> bool" where
  "has_assignment var code = search_assign var False code"

definition literal_here :: "string \<Rightarrow> char \<Rightarrow> char \<Rightarrow> string \<Rightarrow> string option" where
  \<comment> \<open>\<open>name\s*=\s*\{([^}]+)\}\<close> at the start of the text, for the given brackets: group 1\<close>
  "literal_here name opn cls s =
     (if startswith s name then
        (case dropWhile isspace (drop (length name) s) of
           [] \<Rightarrow> None
         | c1 # r1 \<Rightarrow>
             if c1 = CHR ''='' then
               (case dropWhile isspace r1 of
                  [] \<Rightarrow> None
                | c2 # r2 \<Rightarrow>
                    if c2 = opn then
                      (let content = takeWhile (\<lambda>c. c \<noteq> cls) r2 in
                       if content \<noteq> [] \<and> dropWhile (\<lambda>c. c \<noteq> cls) r2 \<noteq> []
                       then Some content else None)
                    else None)
             else None)
      else None)"

fun search_literal :: "string \<Rightarrow> char \<Rightarrow> char \<Rightarrow> string \<Rightarrow> string option" where
  \<comment> \<open>group 1 of the leftmost match\<close>
  "search_literal name opn cls [] = None"
| "search_literal name opn cls (c # cs) =
     (case literal_here name opn cls (c # cs) of
        Some content \<Rightarrow> Some content
      | None \<Rightarrow> search_literal name opn cls cs)"

definition paren_group :: "string \<Rightarrow> string option" where
  \<comment> \<open>\<open>\([^)]+\)\<close> at the start of the text: the text after it\<close>
  "paren_group s =
     (case s of
        [] \<Rightarrow> None
      | c # r \<Rightarrow>
          if c = CHR ''('' \<and> takeWhile (\<lambda>d. d \<noteq> CHR '')'') r \<noteq> []
               \<and> dropWhile (\<lambda>d. d \<noteq> CHR '')'') r \<noteq> []
          then Some (tl (dropWhile (\<lambda>d. d \<noteq> CHR '')'') r))
          else None)"

definition bool_conditions_here :: "string \<Rightarrow> bool" where
  \<comment> \<open>\<open>\([^)]+\)\s*[&|]\s*\([^)]+\)\<close> at the start of the text\<close>
  "bool_conditions_here s =
     (case paren_group s of
        None \<Rightarrow> False
      | Some r1 \<Rightarrow>
          (case dropWhile isspace r1 of
             [] \<Rightarrow> False
           | c # r2 \<Rightarrow>
               (c = CHR ''&'' \<or> c = CHR ''|'')
               \<and> paren_group (dropWhile isspace r2) \<noteq> None))"

definition index_here :: "string \<Rightarrow> bool" where
  \<comment> \<open>\<open>\[\d+\]\<close> at the start of the text\<close>
  "index_here s =
     (case s of
        [] \<Rightarrow> False
      | c # r \<Rightarrow>
          c = CHR ''['' \<and> takeWhile re_digit r \<noteq> []
          \<and> (case dropWhile re_digit r of [] \<Rightarrow> False | d # _ \<Rightarrow> d = CHR '']''))"

subsection \<open>The checks\<close>

text \<open>
  \<open>ast.parse\<close> is the parser of the Python interpreter: it is a parameter of the model,
  returning normally, raising \<open>SyntaxError\<close>, or raising another \<open>Exception\<close>, each with
  the text \<open>str(e)\<close>.
\<close>

datatype parse_result = Parsed | SyntaxError string | OtherException string

definition dangerous_imports :: "string list" where
  "dangerous_imports =
     [''os'', ''sys'', ''subprocess'', ''eval'', ''exec'', ''compile'', ''__import__'']"

definition required_vars :: "string list" where
  "required_vars = [''result'', ''metrics'', ''summary_text'', ''insights'']"

definition squote :: string where
  "squote = [CHR 0x27]"

definition dquote :: string where
  "dquote = [CHR 0x22]"

definition import_issues :: "string \<Rightarrow> string list" where
  \<comment> \<open>the loop over \<open>dangerous_imports\<close>\<close>
  "import_issues code =
     concat (map (\<lambda>imp.
        if py_in (''import '' @ imp) code \<or> py_in (''from '' @ imp) code
        then [no_entry_sign @ '' SECURITY: Code tries to import '' @ squote @ imp @ squote
                @ '' (not allowed)'']
        else []) dangerous_imports)"

definition security_issues :: "string \<Rightarrow> string list" where
  "security_issues code =
     import_issues code
     @ (if py_in ''import openai'' code \<or> py_in ''from openai'' code
        then [no_entry_sign @ '' Code tries to import openai (not allowed)''] else [])
     @ (if py_in ''open('' code \<or> py_in ''write('' code \<or> py_in ''read('' code
        then [no_entry_sign @ '' SECURITY: Code tries to perform file operations (not allowed)'']
        else [])
     @ (if py_in ''requests.'' code \<or> py_in ''urllib'' code \<or> py_in ''socket'' code
        then [no_entry_sign @ '' SECURITY: Code tries to make network requests (not allowed)'']
        else [])"

definition usage_issues :: "string \<Rightarrow> string list \<Rightarrow> string list" where
  "usage_issues code available_dfs =
     (let uses_any_df = list_ex (\<lambda>df_name. py_in df_name code) available_dfs
      in if \<not> uses_any_df
         then [warning_sign @ '' CRITICAL: Code doesn'' @ squote
                 @ ''t use any of the available dataframes'']
         else [])"

definition usage_warnings :: "string \<Rightarrow> string list \<Rightarrow> string list" where
  "usage_warnings code available_dfs =
     (let used_dfs = filter (\<lambda>df_name. py_in df_name code) available_dfs;
          unused_dfs = filter (\<lambda>df_name. \<not> py_in df_name code) available_dfs
      in (if used_dfs \<noteq> [] then [info_sign @ '' Using dataframes: '' @ join '', '' used_dfs]
          else [])
         @ (if unused_dfs \<noteq> [] \<and> length used_dfs > 0
            then [info_sign @ '' Not using: '' @ join '', '' unused_dfs
                    @ '' (this might be intentional based on the query)'']
            else []))"

definition output_issues :: "string \<Rightarrow> string list" where
  "output_issues code =
     (let missing_vars = filter (\<lambda>var. \<not> has_assignment var code) required_vars
      in if missing_vars \<noteq> []
         then [warning_sign @ '' CRITICAL: Missing required output variables: ''
                 @ join '', '' missing_vars]
         else [])"

definition structure_warnings :: "string \<Rightarrow> string list" where
  "structure_warnings code =
     (if py_in ''metrics'' code \<and> py_in ''metrics = {'' code then
        (case search_literal ''metrics'' (CHR ''{'') (CHR ''}'') code of
           None \<Rightarrow> []
         | Some metrics_content \<Rightarrow>
             (let metric_count = count_char (CHR '':'') metrics_content
              in if metric_count < 5
                 then [warning_sign @ '' QUALITY: Only '' @ str_nat metric_count
                         @ '' metrics found, recommend at least 5 for comprehensive analysis'']
                 else []))
      else [])
     @ (if py_in ''insights'' code \<and> py_in ''insights = ['' code then
          (case search_literal ''insights'' (CHR ''['') (CHR '']'') code of
             None \<Rightarrow> []
           | Some insights_content \<Rightarrow>
               (let insight_count = count_char (CHR 0x22) insights_content div 2
                                      + count_char (CHR 0x27) insights_content div 2
                in if insight_count < 5
                   then [warning_sign @ '' QUALITY: Only '' @ str_nat insight_count
                           @ '' insights found, recommend at least 5 for thorough analysis'']
                   else []))
        else [])"

definition data_handling_warnings :: "string \<Rightarrow> string list" where
  "data_handling_warnings code =
     (if py_in ''.str.'' code \<and> \<not> py_in ''na=False'' code
      then [warning_sign @ '' WARNING: String operations found but '' @ squote @ ''na=False''
              @ squote @ '' not used - may cause issues with null values'']
      else [])
     @ (if (py_in ''&'' code \<or> py_in ''|'' code) \<and> \<not> re_search bool_conditions_here code
        then [warning_sign @ '' WARNING: Boolean operations found but conditions may not be properly parenthesized'']
        else [])
     @ (if py_in ''/'' code \<and> \<not> py_in ''if '' (lower code)
        then [info_sign @ '' NOTE: Division operations found - ensure zero-division is handled'']
        else [])
     @ (if (py_in ''.iloc[0]'' code \<or> py_in ''.loc[0]'' code) \<and> \<not> py_in ''if len('' code
        then [warning_sign @ '' WARNING: Direct indexing found without checking if data exists - may fail on empty results'']
        else [])"

definition practice_warnings :: "string \<Rightarrow> string list \<Rightarrow> string list" where
  "practice_warnings code available_dfs =
     (if re_search index_here code \<and> \<not> py_in ''len('' code
      then [info_sign @ '' NOTE: Hardcoded indices found - ensure they'' @ squote
              @ ''re within bounds'']
      else [])
     @ (if \<not> py_in (''df['' @ squote) code \<and> \<not> py_in (''df['' @ dquote) code
           \<and> list_ex (\<lambda>df. py_in df code) available_dfs
        then [info_sign @ '' NOTE: Ensure column names are accessed with quotes: df[''
                @ squote @ ''column_name'' @ squote @ '']'']
        else [])"

definition code_issues :: "(string \<Rightarrow> parse_result) \<Rightarrow> string \<Rightarrow> string list \<Rightarrow> string list" where
  \<comment> \<open>the list \<open>issues\<close> at the end\<close>
  "code_issues parse code available_dfs =
     security_issues code @ usage_issues code available_dfs @ output_issues code
     @ (case parse code of
          SyntaxError e \<Rightarrow> [no_entry_sign @ '' SYNTAX ERROR: '' @ e]
        | _ \<Rightarrow> [])"

definition code_warnings :: "(string \<Rightarrow> parse_result) \<Rightarrow> string \<Rightarrow> string list \<Rightarrow> string list" where
  \<comment> \<open>the list \<open>warnings\<close> at the end\<close>
  "code_warnings parse code available_dfs =
     usage_warnings code available_dfs @ structure_warnings code @ data_handling_warnings code
     @ (case parse code of
          OtherException e \<Rightarrow> [warning_sign @ '' Could not parse code: '' @ e]
        | _ \<Rightarrow> [])
     @ practice_warnings code available_dfs"

definition validate_code :: "(string \<Rightarrow> parse_result) \<Rightarrow> string \<Rightarrow> string list \<Rightarrow> string list" where
  "validate_code parse code available_dfs =
     (let issues = code_issues parse code available_dfs;
          warnings = code_warnings parse code available_dfs;
          all_issues = issues @ warnings
      in all_issues)"

section \<open>The validator on whatever the code bound\<close>

text \<open>
  The generated code is free to bind the four names to values of any type, and the
  executor passes what it finds to \<open>validate_execution_results\<close>. Python has no types to
  stop this: each operation of the validator then either works in its own way on that
  value or raises. This section is the same source function on such values.

  The values are \<open>None\<close>, integers, strings, lists of strings and dicts with string keys.
  A \<open>result\<close> is described, as before, by what the code asks of it; in addition it can be
  a zero-dimensional numpy array, which has \<open>__len__\<close> but on which \<open>len\<close> raises.
\<close>

datatype py_exception = PyException string string  \<comment> \<open>class name, \<open>str(e)\<close>\<close>

datatype 'v pyval =
    PyNone
  | PyInt int
  | PyStr string
  | PyList "string list"
  | PyDict "'v metrics"

datatype result_obj =
    Plain "result_value option"   \<comment> \<open>\<open>None\<close>, or a value as described by \<open>result_value\<close>\<close>
  | ZeroDimArray                  \<comment> \<open>\<open>np.array(5)\<close>\<close>

fun type_name :: "'v pyval \<Rightarrow> string" where
  \<comment> \<open>\<open>type(x).__name__\<close>\<close>
  "type_name PyNone = ''NoneType''"
| "type_name (PyInt n) = ''int''"
| "type_name (PyStr s) = ''str''"
| "type_name (PyList xs) = ''list''"
| "type_name (PyDict d) = ''dict''"

fun truth :: "'v pyval \<Rightarrow> bool" where
  \<comment> \<open>\<open>bool(x)\<close>, which \<open>not x\<close> and \<open>if x\<close> use\<close>
  "truth PyNone = False"
| "truth (PyInt n) = (n \<noteq> 0)"
| "truth (PyStr s) = (s \<noteq> [])"
| "truth (PyList xs) = (xs \<noteq> [])"
| "truth (PyDict d) = (d \<noteq> [])"

definition attribute_error :: "'v pyval \<Rightarrow> string \<Rightarrow> py_exception" where
  "attribute_error x attr =
     PyException ''AttributeError''
       (squote @ type_name x @ squote @ '' object has no attribute '' @ squote @ attr @ squote)"

fun py_len :: "'v pyval \<Rightarrow> py_exception + nat" where
  \<comment> \<open>\<open>len(x)\<close>\<close>
  "py_len (PyStr s) = Inr (length s)"
| "py_len (PyList xs) = Inr (length xs)"
| "py_len (PyDict d) = Inr (length d)"
| "py_len x = Inl (PyException ''TypeError''
                    (''object of type '' @ squote @ type_name x @ squote @ '' has no len()''))"

fun py_iter :: "'v pyval \<Rightarrow> py_exception + string list" where
  \<comment> \<open>the items \<open>for insight in x\<close> visits: the elements of a list, the characters of a
      string, the keys of a dict; all of them strings here, so \<open>str(insight)\<close> is the item\<close>
  "py_iter (PyList xs) = Inr xs"
| "py_iter (PyStr s) = Inr (map (\<lambda>c. [c]) s)"
| "py_iter (PyDict d) = Inr (map fst d)"
| "py_iter x = Inl (PyException ''TypeError''
                     (squote @ type_name x @ squote @ '' object is not iterable''))"

definition check_result_any :: "result_obj \<Rightarrow> py_exception + bool \<times> string list" where
  "check_result_any result =
     (case result of
        Plain r \<Rightarrow> Inr (check_result r)
      | ZeroDimArray \<Rightarrow>
          \<comment> \<open>not \<open>None\<close>, has \<open>__len__\<close>, and \<open>len(result)\<close> raises\<close>
          Inl (PyException ''TypeError'' ''len() of unsized object''))"

definition check_metrics_any :: "'v pyval \<Rightarrow> py_exception + bool \<times> string list" where
  "check_metrics_any metrics =
     (if \<not> truth metrics then Inr (False, [cross_mark @ '' Metrics dictionary is empty''])
      else (case py_len metrics of
              Inl e \<Rightarrow> Inl e
            | Inr n \<Rightarrow>
                if n < 5 then
                  Inr (True, [warning_sign @ '' Only '' @ str_nat n
                                @ '' metrics provided, recommended minimum is 5''])
                else Inr (True, [])))"

definition check_none_metrics_any :: "'v pyval \<Rightarrow> py_exception + string list" where
  "check_none_metrics_any metrics =
     (if truth metrics then
        (case metrics of
           PyDict d \<Rightarrow> Inr (check_none_metrics d)
         | _ \<Rightarrow> Inl (attribute_error metrics ''items''))
      else Inr [])"

definition check_summary_any :: "'v pyval \<Rightarrow> py_exception + bool \<times> string list" where
  "check_summary_any summary_text =
     (if \<not> truth summary_text then Inr (False, [cross_mark @ '' Summary text is empty''])
      else (case summary_text of
              PyStr s \<Rightarrow> Inr (check_summary s)
            | _ \<Rightarrow> Inl (attribute_error summary_text ''strip'')))"

definition check_insights_any :: "'v pyval \<Rightarrow> py_exception + bool \<times> string list" where
  "check_insights_any insights =
     (if \<not> truth insights then Inr (False, [cross_mark @ '' Insights list is empty''])
      else (case py_len insights of
              Inl e \<Rightarrow> Inl e
            | Inr n \<Rightarrow>
                if n < 5 then
                  Inr (True, [warning_sign @ '' Only '' @ str_nat n
                                @ '' insights provided, recommended minimum is 5''])
                else Inr (True, [])))"

definition check_insight_numbers_any :: "'v pyval \<Rightarrow> py_exception + string list" where
  "check_insight_numbers_any insights =
     (if truth insights then
        (case py_iter insights of
           Inl e \<Rightarrow> Inl e
         | Inr items \<Rightarrow>
             (case py_len insights of
                Inl e \<Rightarrow> Inl e
              | Inr n \<Rightarrow>
                  if (of_nat (insights_with_numbers items) :: rat) < of_nat n * (6 / 10)
                  then Inr [warning_sign @ '' Many insights lack specific numbers - they should include concrete data'']
                  else Inr []))
      else Inr [])"

definition validate_any ::
  "result_obj \<Rightarrow> 'v pyval \<Rightarrow> 'v pyval \<Rightarrow> 'v pyval \<Rightarrow> py_exception + bool \<times> string list" where
  \<comment> \<open>\<open>validate_execution_results\<close> on any values: the checks run in the order of the
      source and the first exception ends the call\<close>
  "validate_any result metrics summary_text insights =
     (case check_result_any result of Inl e \<Rightarrow> Inl e | Inr (v1, i1) \<Rightarrow>
      case check_metrics_any metrics of Inl e \<Rightarrow> Inl e | Inr (v2, i2) \<Rightarrow>
      case check_none_metrics_any metrics of Inl e \<Rightarrow> Inl e | Inr i3 \<Rightarrow>
      case check_summary_any summary_text of Inl e \<Rightarrow> Inl e | Inr (v4, i4) \<Rightarrow>
      case check_insights_any insights of Inl e \<Rightarrow> Inl e | Inr (v5, i5) \<Rightarrow>
      case check_insight_numbers_any insights of Inl e \<Rightarrow> Inl e | Inr i6 \<Rightarrow>
        Inr (v1 \<and> v2 \<and> v4 \<and> v5, i1 @ i2 @ i3 @ i4 @ i5 @ i6))"

section \<open>Sandboxed Executor: \<open>execute_generated_code\<close>\<close>

text \<open>
  \<open>local_vars\<close> is the namespace the code runs in. The model keeps the bindings the
  executor makes (one per table; the library handles \<open>pd\<close> and \<open>np\<close> are left out) and the
  four bindings it reads back, each unbound (\<open>None\<close>) or bound to a value.
\<close>

record 'v local_vars =
  table_vars :: "(string \<times> table) list"
  result_var :: "result_obj option"
  metrics_var :: "'v pyval option"
  summary_text_var :: "'v pyval option"
  insights_var :: "'v pyval option"

text \<open>
  The only state the executor touches is \<open>sys.stdout\<close>, a reference to a stream object;
  \<open>'s\<close> is the type of such references.
\<close>

record 's world =
  sys_stdout :: 's

text \<open>
  \<open>exec\<close> is the Python interpreter: it is a parameter of the model. Given the code, the
  namespace and the world it starts in, it tells whether the code raised, the namespace
  as the code left it, the text written to the stream that \<open>sys.stdout\<close> was at the
  start, whether the code closed that stream, and the world as the code left it (the code
  can rebind \<open>sys.stdout\<close>).
\<close>

record ('v, 's) exec_outcome =
  raised :: "py_exception option"
  locals_after :: "'v local_vars"
  written :: string
  buffer_closed :: bool
  world_after :: "'s world"

type_synonym ('v, 's) interpreter =
  "string \<Rightarrow> 'v local_vars \<Rightarrow> 's world \<Rightarrow> ('v, 's) exec_outcome"

record 'v execution_result =
  r_result :: result_obj
  r_metrics :: "'v pyval"
  r_summary_text :: "'v pyval"
  r_insights :: "'v pyval"
  r_output_text :: string
  r_is_valid :: bool
  r_validation_issues :: "string list"

definition initial_locals :: "(string \<times> table) list \<Rightarrow> 'v local_vars" where
  \<comment> \<open>the loop \<open>local_vars[df_name] = df\<close> over the items of \<open>dataframes_dict\<close>\<close>
  "initial_locals dataframes_dict =
     \<lparr> table_vars = fold (\<lambda>(df_name, df) vars. dict_put df_name df vars) dataframes_dict [],
       result_var = None, metrics_var = None, summary_text_var = None, insights_var = None \<rparr>"

definition get_or :: "'a option \<Rightarrow> 'a \<Rightarrow> 'a" where
  \<comment> \<open>\<open>local_vars.get(name, default)\<close>\<close>
  "get_or binding dflt = (case binding of None \<Rightarrow> dflt | Some v \<Rightarrow> v)"

definition getvalue :: "('v, 's) exec_outcome \<Rightarrow> py_exception + string" where
  \<comment> \<open>\<open>captured_output.getvalue()\<close>\<close>
  "getvalue out =
     (if buffer_closed out then Inl (PyException ''ValueError'' ''I/O operation on closed file'')
      else Inr (written out))"

definition execute_generated_code ::
  "('v, 's) interpreter \<Rightarrow> 's \<Rightarrow> string \<Rightarrow> (string \<times> table) list \<Rightarrow> 's world
     \<Rightarrow> (py_exception + 'v execution_result) \<times> 's world" where
  \<comment> \<open>\<open>captured_output\<close> is the new \<open>io.StringIO()\<close>. The result is what the call raises
      (\<open>Inl\<close>) or returns (\<open>Inr\<close>), and the world it leaves. Every exception raised in the
      \<open>try\<close> block goes through \<open>except\<close> (when it is an \<open>Exception\<close>) and \<open>finally\<close>, which
      both rebind \<open>sys.stdout\<close> to \<open>old_stdout\<close>, and leaves the call unchanged\<close>
  "execute_generated_code exec captured_output code dataframes_dict w =
     (let local_vars = initial_locals dataframes_dict;
          old_stdout = sys_stdout w;
          w = w\<lparr>sys_stdout := captured_output\<rparr>;
          out = exec code local_vars w;
          w = world_after out
      in case raised out of
           Some e \<Rightarrow>
             (let w = w\<lparr>sys_stdout := old_stdout\<rparr>;
                  w = w\<lparr>sys_stdout := old_stdout\<rparr>
              in (Inl e, w))
         | None \<Rightarrow>
             (let w = w\<lparr>sys_stdout := old_stdout\<rparr> in
              case getvalue out of
                Inl e \<Rightarrow>
                  (let w = w\<lparr>sys_stdout := old_stdout\<rparr>;
                       w = w\<lparr>sys_stdout := old_stdout\<rparr>
                   in (Inl e, w))
              | Inr output_text \<Rightarrow>
                  (let local_vars = locals_after out;
                       result = get_or (result_var local_vars) (Plain None);
                       metrics = get_or (metrics_var local_vars) (PyDict []);
                       summary_text = get_or (summary_text_var local_vars) (PyStr []);
                       insights = get_or (insights_var local_vars) (PyList [])
                   in case validate_any result metrics summary_text insights of
                        Inl e \<Rightarrow>
                          (let w = w\<lparr>sys_stdout := old_stdout\<rparr>;
                               w = w\<lparr>sys_stdout := old_stdout\<rparr>
                           in (Inl e, w))
                      | Inr (is_valid, validation_issues) \<Rightarrow>
                          (let w = w\<lparr>sys_stdout := old_stdout\<rparr>
                           in (Inr \<lparr> r_result = result, r_metrics = metrics,
                                      r_summary_text = summary_text, r_insights = insights,
                                      r_output_text = output_text, r_is_valid = is_valid,
                                      r_validation_issues = validation_issues \<rparr>, w)))))"

section \<open>The review step of the application\<close>





section \<open>Example inputs\<close>

definition failing_interpreter :: "(int, nat) interpreter" where
  \<comment> \<open>a run that prints, rebinds \<open>sys.stdout\<close> and then divides by zero\<close>
  "failing_interpreter code vars w =
     \<lparr> raised = Some (PyException ''ZeroDivisionError'' ''division by zero''),
       locals_after = vars, written = ''partial output'', buffer_closed = False,
       world_after = w\<lparr>sys_stdout := 7\<rparr> \<rparr>"

definition partial_interpreter :: "(int, nat) interpreter" where
  \<comment> \<open>a run of code that prints and binds \<open>metrics\<close> only\<close>
  "partial_interpreter code vars w =
     \<lparr> raised = None,
       locals_after = vars\<lparr>metrics_var := Some (PyDict [(''rows'', Some 3)])\<rparr>,
       written = ''done'', buffer_closed = False, world_after = w \<rparr>"

definition int_summary_interpreter :: "(int, nat) interpreter" where
  \<comment> \<open>a run of code that ends normally and binds \<open>summary_text = 5\<close>\<close>
  "int_summary_interpreter code vars w =
     \<lparr> raised = None,
       locals_after = vars\<lparr>result_var := Some (Plain (Some Scalar)),
                          metrics_var := Some (PyDict [(''rows'', Some 3)]),
                          summary_text_var := Some (PyInt 5),
                          insights_var := Some (PyList [''3''])\<rparr>,
       written = [], buffer_closed = False, world_after = w \<rparr>"

definition closing_interpreter :: "(int, nat) interpreter" where
  \<comment> \<open>a run of code that ends normally after \<open>sys.stdout.close()\<close>\<close>
  "closing_interpreter code vars w =
     \<lparr> raised = None, locals_after = vars, written = [], buffer_closed = True,
       world_after = w \<rparr>"

definition int_summary_code :: string where
  "int_summary_code =
     ''result = 1.5; metrics = dict(rows=3); summary_text = 5; insights = [str(3)]''"

definition two_tables :: "(string \<times> table) list" where
  "two_tables =
     [(''df_customers'', [(''name'', Other), (''id'', Number)]),
      (''df_sales'', [(''region'', Other), (''amount'', Number)])]"

definition five_metrics :: "int metrics" where
  "five_metrics = [(''a'', Some 1), (''b'', Some 2), (''c'', Some 3), (''d'', Some 4), (''e'', Some 5)]"

definition five_insights :: "string list" where
  "five_insights =
     [''Sales rose 12%'', ''Top region: 3 stores'', ''45 customers churned'',
      ''Average order 19.90'', ''Q4 beat Q3'']"

section \<open>Facts about the string functions\<close>



lemma strip_empty_iff: "strip s = [] \<longleftrightarrow> (\<forall>c\<in>set s. isspace c)"
proof
  assume "strip s = []"
  then have a: "\<forall>c\<in>set (dropWhile isspace s). isspace c"
    by (simp add: strip_def)
  have "dropWhile isspace s = []"
  proof (rule ccontr)
    assume n: "dropWhile isspace s \<noteq> []"
    then have "\<not> isspace (hd (dropWhile isspace s))" by (rule hd_dropWhile)
    moreover have "hd (dropWhile isspace s) \<in> set (dropWhile isspace s)" using n by simp
    ultimately show False using a by blast
  qed
  then show "\<forall>c\<in>set s. isspace c" by (simp add: dropWhile_eq_Nil_conv)
next
  assume "\<forall>c\<in>set s. isspace c"
  then have "dropWhile isspace s = []" by (rule dropWhile_eq_Nil_conv[THEN iffD2])
  then show "strip s = []" unfolding strip_def by (simp only: rev.simps dropWhile.simps)
qed

section \<open>Facts about the Quality Scorer\<close>

lemma py_int_mono: "a \<le> b \<Longrightarrow> py_int a \<le> py_int b"
proof -
  assume ab: "a \<le> b"
  consider "0 \<le> a" | "a < 0" "0 \<le> b" | "a < 0" "b < 0" by linarith
  then show ?thesis
  proof cases
    case 1 then show ?thesis using ab by (simp add: py_int_def floor_mono)
  next
    case 2
    have "\<lceil>a\<rceil> \<le> 0" using 2 by (simp add: ceiling_le_iff)
    moreover have "0 \<le> \<lfloor>b\<rfloor>" using 2 by simp
    ultimately have "\<lceil>a\<rceil> \<le> \<lfloor>b\<rfloor>" by linarith
    then show ?thesis using 2 by (simp add: py_int_def)
  next
    case 3 then show ?thesis using ab by (simp add: py_int_def ceiling_mono)
  qed
qed

lemma length_dict_put: "length d \<le> length (dict_put k v d)"
  by (simp add: dict_put_def)

lemma metrics_quality_mono:
  assumes "a \<le> b" "length m \<le> length m'"
  shows "metrics_quality a m \<le> metrics_quality b m'"
proof (cases "m = []")
  case True
  then show ?thesis using assms(1) by (simp add: metrics_quality_def Let_def)
next
  case False
  then have "m' \<noteq> []" using assms(2) by auto
  moreover have "(of_nat (length m * 6) :: rat) \<le> of_nat (length m' * 6)"
    using assms(2) by simp
  moreover have "length m < 5 \<Longrightarrow> (of_nat (length m * 6) :: rat) \<le> 30"
  proof -
    assume "length m < 5"
    then have "length m * 6 \<le> 30" by simp
    then have "(of_nat (length m * 6) :: rat) \<le> of_nat 30" by (simp only: of_nat_le_iff)
    then show ?thesis by simp
  qed
  ultimately show ?thesis using False assms
    by (simp add: metrics_quality_def Let_def)
qed

lemma insights_with_numbers_snoc:
  "insights_with_numbers xs \<le> insights_with_numbers (xs @ [x])"
  by (simp add: insights_with_numbers_def)

lemma insights_quality_snoc:
  assumes "a \<le> b"
  shows "insights_quality a xs \<le> insights_quality b (xs @ [x])"
proof -
  let ?n = "length xs"
  have bonus: "(of_nat (min 10 (insights_with_numbers xs * 2)) :: rat)
                 \<le> of_nat (min 10 (insights_with_numbers (xs @ [x]) * 2))"
    using insights_with_numbers_snoc[of xs x] by (simp del: of_nat_mult of_nat_min)
  have nonneg: "(0::rat) \<le> of_nat (min 10 (insights_with_numbers (xs @ [x]) * 2))" by simp
  show ?thesis
  proof (cases "xs = []")
    case True
    then show ?thesis using assms nonneg by (simp add: insights_quality_def Let_def)
  next
    case False
    have cnt: "(if ?n \<ge> 5 then a + 20 else a + of_nat (?n * 4))
               \<le> (if Suc ?n \<ge> 5 then b + 20 else b + of_nat (Suc ?n * 4))"
    proof (cases "?n \<ge> 5")
      case True then show ?thesis using assms by simp
    next
      case f: False
      then have "?n * 4 \<le> 20" by simp
      then have "(of_nat (?n * 4) :: rat) \<le> of_nat 20" by (simp only: of_nat_le_iff)
      then show ?thesis using f assms by simp
    qed
    show ?thesis using False cnt bonus
      by (simp add: insights_quality_def Let_def del: of_nat_mult of_nat_min of_nat_Suc)
  qed
qed

lemma summary_quality_mono: "a \<le> b \<Longrightarrow> summary_quality a s \<le> summary_quality b s"
  by (simp add: summary_quality_def)

lemma result_quality_mono: "a \<le> b \<Longrightarrow> result_quality a r \<le> result_quality b r"
  by (simp add: result_quality_def Let_def split: option.splits result_value.splits)

lemma points_mono_metrics:
  assumes "length m \<le> length m'"
  shows "quality_points m i s r \<le> quality_points m' i s r"
proof -
  have "metrics_quality 0 m \<le> metrics_quality 0 m'" using assms by (simp add: metrics_quality_mono)
  then have "insights_quality (metrics_quality 0 m) i \<le> insights_quality (metrics_quality 0 m') i"
    by (simp add: insights_quality_def Let_def)
  then show ?thesis
    unfolding quality_points_def by (intro result_quality_mono summary_quality_mono)
qed

lemma points_mono_insights:
  "quality_points m i s r \<le> quality_points m (i @ [x]) s r"
  unfolding quality_points_def
  by (intro result_quality_mono summary_quality_mono insights_quality_snoc order_refl)

lemma quality_points_metrics:
  "quality_points (m :: 'v metrics) i s r
     = quality_points ([] :: 'v metrics) i s r + metrics_quality 0 m"
  by (simp add: quality_points_def result_quality_def summary_quality_def insights_quality_def
        metrics_quality_def Let_def split: option.splits result_value.splits)

section \<open>Facts about the Result Contract Validator\<close>

lemma is_valid_iff:
  "fst (validate_execution_results r m s i) \<longleftrightarrow>
     \<not> (r = None \<or> m = [] \<or> s = [] \<or> strip s = [] \<or> i = [])"
  by (simp add: validate_execution_results_def check_result_def check_metrics_def
        check_summary_def check_insights_def split: prod.splits option.splits)

lemma issues_eq:
  "snd (validate_execution_results r m s i) =
     snd (check_result r) @ snd (check_metrics m) @ check_none_metrics m
       @ snd (check_summary s) @ snd (check_insights i) @ check_insight_numbers i"
  by (simp add: validate_execution_results_def split: prod.splits)

lemma sixty_percent:
  "((of_nat k :: rat) < of_nat n * (6 / 10)) \<longleftrightarrow> 10 * k < 6 * n"
proof -
  have "((of_nat k :: rat) < of_nat n * (6 / 10)) \<longleftrightarrow> (of_nat (10 * k) :: rat) < of_nat (6 * n)"
    by (simp add: field_simps)
  also have "\<dots> \<longleftrightarrow> 10 * k < 6 * n" by (simp only: of_nat_less_iff)
  finally show ?thesis .
qed

lemma validate_any_typed:
  "validate_any (Plain r) (PyDict m) (PyStr s) (PyList i)
     = Inr (validate_execution_results r m s i)"
proof -
  have 1: "check_result_any (Plain r) = Inr (check_result r)"
    by (simp add: check_result_any_def)
  have 2: "check_metrics_any (PyDict m) = Inr (check_metrics m)"
    by (simp add: check_metrics_any_def check_metrics_def)
  have 3: "check_none_metrics_any (PyDict m) = Inr (check_none_metrics m)"
    by (simp add: check_none_metrics_any_def check_none_metrics_def)
  have 4: "check_summary_any (PyStr s) = Inr (check_summary s)"
    by (simp add: check_summary_any_def check_summary_def)
  have 5: "check_insights_any (PyList i) = Inr (check_insights i)"
    by (simp add: check_insights_any_def check_insights_def)
  have 6: "check_insight_numbers_any (PyList i) = Inr (check_insight_numbers i)"
    by (simp add: check_insight_numbers_any_def check_insight_numbers_def)
  show ?thesis
    unfolding validate_any_def validate_execution_results_def 1 2 3 4 5 6
    by (simp split: prod.splits)
qed

lemma restore_twice:
  "w\<lparr>sys_stdout := a\<rparr>\<lparr>sys_stdout := a\<rparr> = w\<lparr>sys_stdout := a\<rparr>"
  by simp

section \<open>Facts about the Relevance Selector\<close>

lemma fold_dict_put_distinct:
  "distinct (map fst acc @ map fst xs) \<Longrightarrow>
   fold (\<lambda>(k, x) d. dict_put k (g k x) d) xs acc = acc @ map (\<lambda>(k, x). (k, g k x)) xs"
proof (induction xs arbitrary: acc)
  case Nil
  then show ?case by simp
next
  case (Cons p xs)
  obtain k x where p: "p = (k, x)" by (cases p)
  have fresh: "k \<notin> set (map fst acc)" using Cons.prems p by auto
  have put: "dict_put k (g k x) acc = acc @ [(k, g k x)]"
    using fresh by (simp add: dict_put_def)
  have "distinct (map fst (acc @ [(k, g k x)]) @ map fst xs)"
    using Cons.prems p by auto
  from Cons.IH[OF this] show ?case by (simp add: p put)
qed

lemma relevance_scores_distinct:
  "distinct (map fst dfs) \<Longrightarrow>
   relevance_scores query dfs = map (\<lambda>(n, df). (n, table_score query n df)) dfs"
  unfolding relevance_scores_def
  using fold_dict_put_distinct[of "[]" dfs "table_score query"] by simp

lemma sorted_dfs_sorted:
  "sorted_wrt (\<lambda>a b. snd a \<ge> snd b) (sorted_dfs query dfs)"
proof -
  have "sorted (map (\<lambda>x. - int (snd x)) (sorted_dfs query dfs))"
    unfolding sorted_dfs_def by (rule sorted_sort_key)
  then show ?thesis by (simp add: sorted_map)
qed

lemma sorted_dfs_stable:
  "filter (\<lambda>p. snd p = k) (sorted_dfs query dfs)
     = filter (\<lambda>p. snd p = k) (relevance_scores query dfs)"
proof -
  have "filter (\<lambda>y. - int (snd y) = - int k) (sorted_dfs query dfs)
        = filter (\<lambda>y. - int (snd y) = - int k) (relevance_scores query dfs)"
    unfolding sorted_dfs_def by (rule sort_key_stable)
  then show ?thesis by simp
qed

lemma set_sorted_dfs:
  assumes "distinct (map fst dfs)"
  shows "set (sorted_dfs q dfs) = {(n, table_score q n df) | n df. (n, df) \<in> set dfs}"
  unfolding sorted_dfs_def relevance_scores_distinct[OF assms] by force

lemma analyze_all_zero:
  assumes "distinct (map fst dfs)" "\<forall>(n, df)\<in>set dfs. table_score q n df = 0"
  shows "analyze_query_relevance q dfs = map fst dfs"
proof -
  have "\<forall>p\<in>set (sorted_dfs q dfs). snd p = 0"
    using assms(2) unfolding set_sorted_dfs[OF assms(1)] by auto
  then have "filter (\<lambda>(df_name, score). score > 0) (sorted_dfs q dfs) = []"
    by (auto simp: filter_empty_conv)
  then show ?thesis by (simp add: analyze_query_relevance_def)
qed

lemma analyze_some_positive:
  assumes "distinct (map fst dfs)" "\<not> (\<forall>(n, df)\<in>set dfs. table_score q n df = 0)"
  shows "analyze_query_relevance q dfs
           = map fst (filter (\<lambda>(df_name, score). score > 0) (sorted_dfs q dfs))"
proof -
  obtain n df where nd: "(n, df) \<in> set dfs" "table_score q n df > 0"
    using assms(2) by auto
  have "(n, table_score q n df) \<in> set (sorted_dfs q dfs)"
    unfolding set_sorted_dfs[OF assms(1)] using nd(1) by blast
  then have "(n, table_score q n df) \<in> set (filter (\<lambda>(df_name, score). score > 0) (sorted_dfs q dfs))"
    using nd(2) by simp
  then have "filter (\<lambda>(df_name, score). score > 0) (sorted_dfs q dfs) \<noteq> []"
    by (metis empty_iff empty_set)
  then show ?thesis by (simp add: analyze_query_relevance_def Let_def)
qed

lemma ranked_set:
  assumes "distinct (map fst dfs)"
  shows "set (filter (\<lambda>(df_name, score). score > 0) (sorted_dfs q dfs))
           = {(n, table_score q n df) | n df. (n, df) \<in> set dfs \<and> table_score q n df > 0}"
  unfolding set_filter set_sorted_dfs[OF assms] by auto

lemma ranked_sorted:
  "sorted_wrt (\<lambda>a b. snd a \<ge> snd b) (filter (\<lambda>(df_name, score). score > 0) (sorted_dfs q dfs))"
  by (rule sorted_wrt_filter) (rule sorted_dfs_sorted)

lemma ranked_stable:
  assumes "distinct (map fst dfs)"
  shows "filter (\<lambda>p. snd p = k) (filter (\<lambda>(df_name, score). score > 0) (sorted_dfs q dfs))
           = filter (\<lambda>p. snd p = k \<and> 0 < k) (map (\<lambda>(n, df). (n, table_score q n df)) dfs)"
proof -
  have "filter (\<lambda>p. snd p = k) (filter (\<lambda>(df_name, score). score > 0) (sorted_dfs q dfs))
          = filter (\<lambda>(df_name, score). score > 0) (filter (\<lambda>p. snd p = k) (sorted_dfs q dfs))"
    by (simp add: conj_commute)
  also have "\<dots> = filter (\<lambda>(df_name, score). score > 0)
                      (filter (\<lambda>p. snd p = k) (relevance_scores q dfs))"
    by (simp only: sorted_dfs_stable)
  also have "\<dots> = filter (\<lambda>p. snd p = k \<and> 0 < k) (relevance_scores q dfs)"
    by (auto simp: case_prod_unfold intro: filter_cong)
  finally show ?thesis by (simp only: relevance_scores_distinct[OF assms])
qed

lemma analyze_perm_iff:
  assumes d: "distinct (map fst dfs)"
  shows "mset (analyze_query_relevance q dfs) = mset (map fst dfs) \<longleftrightarrow>
           (\<forall>(n, df)\<in>set dfs. table_score q n df = 0) \<or> (\<forall>(n, df)\<in>set dfs. table_score q n df > 0)"
proof (cases "\<forall>(n, df)\<in>set dfs. table_score q n df = 0")
  case True
  then show ?thesis using analyze_all_zero[OF d] by simp
next
  case False
  let ?pos = "\<lambda>(df_name :: string, score :: nat). score > 0"
  have res: "analyze_query_relevance q dfs = map fst (filter ?pos (sorted_dfs q dfs))"
    by (rule analyze_some_positive[OF d False])
  have items: "relevance_scores q dfs = map (\<lambda>(n, df). (n, table_score q n df)) dfs"
    by (rule relevance_scores_distinct[OF d])
  have names: "map fst (relevance_scores q dfs) = map fst dfs"
    unfolding items by (simp add: case_prod_unfold)
  show ?thesis
  proof (cases "\<forall>(n, df)\<in>set dfs. table_score q n df > 0")
    case True
    then have "\<forall>p\<in>set (sorted_dfs q dfs). ?pos p"
      unfolding set_sorted_dfs[OF d] by auto
    then have "filter ?pos (sorted_dfs q dfs) = sorted_dfs q dfs" by (simp add: filter_id_conv)
    then have "mset (analyze_query_relevance q dfs) = mset (map fst (relevance_scores q dfs))"
      using res by (simp add: sorted_dfs_def)
    then show ?thesis using True by (simp add: names)
  next
    case f2: False
    then obtain n df where nd: "(n, df) \<in> set dfs" "table_score q n df = 0" by auto
    have "(n, table_score q n df) \<in> set (sorted_dfs q dfs)"
      unfolding set_sorted_dfs[OF d] using nd(1) by blast
    then have "(n, 0) \<in> set (sorted_dfs q dfs)" using nd(2) by simp
    then obtain p where "p \<in> set (sorted_dfs q dfs)" "\<not> ?pos p"
      by force
    then have "length (filter ?pos (sorted_dfs q dfs)) < length (sorted_dfs q dfs)"
      by (meson length_filter_less)
    also have "length (sorted_dfs q dfs) = length dfs"
      by (simp add: sorted_dfs_def items)
    finally have "length (analyze_query_relevance q dfs) < length dfs"
      using res by simp
    then have "size (mset (analyze_query_relevance q dfs)) \<noteq> size (mset (map fst dfs))"
      by simp
    then have "mset (analyze_query_relevance q dfs) \<noteq> mset (map fst dfs)" by metis
    then show ?thesis using False f2 by simp
  qed
qed

section \<open>The claims\<close>

text \<open>
  C1. When running the code raises, \<open>execute_generated_code\<close> raises that same exception
  value, returns no result structure, and leaves \<open>sys.stdout\<close> bound to the stream it was
  bound to at the call, whatever the code did to it.
\<close>

theorem exception_propagates:
  assumes "raised (exec code (initial_locals dfs) (w\<lparr>sys_stdout := captured\<rparr>)) = Some e"
  shows "fst (execute_generated_code exec captured code dfs w) = Inl e
       \<and> sys_stdout (snd (execute_generated_code exec captured code dfs w)) = sys_stdout w"
  using assms by (simp add: execute_generated_code_def Let_def)

theorem exception_propagates_witness:
  "raised (failing_interpreter ''result = 1 / 0'' (initial_locals [(''df_sales'', [(''amount'', Number)])])
            (\<lparr>sys_stdout = 1\<rparr>\<lparr>sys_stdout := 2\<rparr>))
     = Some (PyException ''ZeroDivisionError'' ''division by zero'')
   \<and> fst (execute_generated_code failing_interpreter 2 ''result = 1 / 0''
            [(''df_sales'', [(''amount'', Number)])] \<lparr>sys_stdout = 1\<rparr>)
       = Inl (PyException ''ZeroDivisionError'' ''division by zero'')
   \<and> sys_stdout (snd (execute_generated_code failing_interpreter 2 ''result = 1 / 0''
            [(''df_sales'', [(''amount'', Number)])] \<lparr>sys_stdout = 1\<rparr>)) = 1"
proof -
  have h: "raised (failing_interpreter ''result = 1 / 0''
                     (initial_locals [(''df_sales'', [(''amount'', Number)])])
                     (\<lparr>sys_stdout = 1\<rparr>\<lparr>sys_stdout := 2\<rparr>))
             = Some (PyException ''ZeroDivisionError'' ''division by zero'')"
    by (simp add: failing_interpreter_def)
  show ?thesis
    using h exception_propagates[where exec = failing_interpreter and captured = 2
        and code = "''result = 1 / 0''" and dfs = "[(''df_sales'', [(''amount'', Number)])]"
        and w = "\<lparr>sys_stdout = 1\<rparr>"
        and e = "PyException ''ZeroDivisionError'' ''division by zero''"]
    by simp
qed

text \<open>
  C2, as amended. For a table set with distinct names: the selector returns a permutation
  of all table names if and only if every table scored zero or every table scored above
  zero; when every table scored zero it returns all names in insertion order; otherwise it
  returns exactly the names with a positive score, sorted by descending score, tables of
  equal score in insertion order.
\<close>

theorem relevance_selection:
  assumes "distinct (map fst dfs)"
  shows "(mset (analyze_query_relevance q dfs) = mset (map fst dfs) \<longleftrightarrow>
            (\<forall>(n, df)\<in>set dfs. table_score q n df = 0)
            \<or> (\<forall>(n, df)\<in>set dfs. table_score q n df > 0))
       \<and> ((\<forall>(n, df)\<in>set dfs. table_score q n df = 0) \<longrightarrow>
            analyze_query_relevance q dfs = map fst dfs)
       \<and> (\<not> (\<forall>(n, df)\<in>set dfs. table_score q n df = 0) \<longrightarrow>
            (\<exists>ranked. analyze_query_relevance q dfs = map fst ranked
               \<and> set ranked = {(n, table_score q n df) | n df.
                                  (n, df) \<in> set dfs \<and> table_score q n df > 0}
               \<and> sorted_wrt (\<lambda>a b. snd a \<ge> snd b) ranked
               \<and> (\<forall>k. filter (\<lambda>p. snd p = k) ranked
                         = filter (\<lambda>p. snd p = k \<and> 0 < k)
                             (map (\<lambda>(n, df). (n, table_score q n df)) dfs))))"
proof (intro conjI impI)
  show "mset (analyze_query_relevance q dfs) = mset (map fst dfs) \<longleftrightarrow>
            (\<forall>(n, df)\<in>set dfs. table_score q n df = 0)
            \<or> (\<forall>(n, df)\<in>set dfs. table_score q n df > 0)"
    by (rule analyze_perm_iff[OF assms])
next
  assume "\<forall>(n, df)\<in>set dfs. table_score q n df = 0"
  then show "analyze_query_relevance q dfs = map fst dfs"
    by (rule analyze_all_zero[OF assms])
next
  assume nz: "\<not> (\<forall>(n, df)\<in>set dfs. table_score q n df = 0)"
  let ?ranked = "filter (\<lambda>(df_name, score). score > 0) (sorted_dfs q dfs)"
  have "analyze_query_relevance q dfs = map fst ?ranked"
    by (rule analyze_some_positive[OF assms nz])
  moreover have "set ?ranked = {(n, table_score q n df) | n df.
                                  (n, df) \<in> set dfs \<and> table_score q n df > 0}"
    by (rule ranked_set[OF assms])
  moreover have "sorted_wrt (\<lambda>a b. snd a \<ge> snd b) ?ranked" by (rule ranked_sorted)
  moreover have "\<forall>k. filter (\<lambda>p. snd p = k) ?ranked
                         = filter (\<lambda>p. snd p = k \<and> 0 < k)
                             (map (\<lambda>(n, df). (n, table_score q n df)) dfs)"
    using ranked_stable[OF assms] by blast
  ultimately show "\<exists>ranked. analyze_query_relevance q dfs = map fst ranked
               \<and> set ranked = {(n, table_score q n df) | n df.
                                  (n, df) \<in> set dfs \<and> table_score q n df > 0}
               \<and> sorted_wrt (\<lambda>a b. snd a \<ge> snd b) ranked
               \<and> (\<forall>k. filter (\<lambda>p. snd p = k) ranked
                         = filter (\<lambda>p. snd p = k \<and> 0 < k)
                             (map (\<lambda>(n, df). (n, table_score q n df)) dfs))"
    by blast
qed

theorem relevance_selection_witness:
  "distinct (map fst two_tables)
   \<and> list_all (\<lambda>(n, df). table_score ''total sales by region'' n df > 0) two_tables
   \<and> mset (analyze_query_relevance ''total sales by region'' two_tables)
       = mset (map fst two_tables)
   \<and> list_all (\<lambda>(n, df). table_score ''hello'' n df = 0) two_tables
   \<and> analyze_query_relevance ''hello'' two_tables = map fst two_tables"
proof -
  have h: "distinct (map fst two_tables)" by (simp add: two_tables_def)
  have pos: "\<forall>(n, df)\<in>set two_tables. table_score ''total sales by region'' n df > 0"
    by code_simp
  have zero: "\<forall>(n, df)\<in>set two_tables. table_score ''hello'' n df = 0"
    by code_simp
  show ?thesis
    unfolding list_all_iff
    using h pos zero relevance_selection[OF h, of "''total sales by region''"]
      relevance_selection[OF h, of "''hello''"]
    by blast
qed

text \<open>
  C2 as stated fails: for the query \<open>sales\<close> and the single table \<open>df_sales\<close> the
  table scores 100, not zero, and the selector returns all the table names.
\<close>

theorem relevance_permutation_counterexample:
  "table_score ''sales'' ''df_sales'' [(''amount'', Number)] = 100
   \<and> analyze_query_relevance ''sales'' [(''df_sales'', [(''amount'', Number)])] = [''df_sales'']
   \<and> map fst [(''df_sales'', [(''amount'', Number)])] = [''df_sales'']"
  by code_simp

text \<open>
  C3, as amended. Whatever the score accumulated from the other three artifacts, the
  result block adds to it: 15 for a \<open>DataFrame\<close> with at least one row, and 5 more when
  it has more than one column; 5 for a \<open>DataFrame\<close> with no rows; 10 for any other result
  that is not \<open>None\<close>, with or without a length; nothing for \<open>None\<close>. The returned score
  is the integer part, capped at 100, of the score of the other three artifacts plus
  this contribution.
\<close>

theorem result_contribution:
  "result_quality sc None = sc
   \<and> result_quality sc (Some (DataFrame rows cols))
       = sc + (if rows > 0 then 15 + (if cols > 1 then 5 else 0) else 5)
   \<and> result_quality sc (Some (Sized n)) = sc + 10
   \<and> result_quality sc (Some Scalar) = sc + 10
   \<and> calculate_quality_score m i s None
       = min 100 (py_int (summary_quality (insights_quality (metrics_quality 0 m) i) s))
   \<and> calculate_quality_score m i s (Some (DataFrame rows cols))
       = min 100 (py_int (summary_quality (insights_quality (metrics_quality 0 m) i) s
                            + (if rows > 0 then 15 + (if cols > 1 then 5 else 0) else 5)))
   \<and> calculate_quality_score m i s (Some (Sized n))
       = min 100 (py_int (summary_quality (insights_quality (metrics_quality 0 m) i) s + 10))
   \<and> calculate_quality_score m i s (Some Scalar)
       = min 100 (py_int (summary_quality (insights_quality (metrics_quality 0 m) i) s + 10))"
  by (simp add: calculate_quality_score_def quality_points_def result_quality_def Let_def
        add.commute)

theorem result_contribution_witness:
  "result_quality 11 (Some (DataFrame 3 2)) = 31
   \<and> result_quality 11 (Some (DataFrame 3 1)) = 26
   \<and> result_quality 11 (Some (DataFrame 0 2)) = 16
   \<and> result_quality 11 None = 11
   \<and> calculate_quality_score [(''a'', Some (1::int))] [''x''] ''abcde'' (Some (DataFrame 3 2)) = 31
   \<and> calculate_quality_score [(''a'', Some (1::int))] [''x''] ''abcde'' (Some (Sized 3)) = 21
   \<and> calculate_quality_score [(''a'', Some (1::int))] [''x''] ''abcde'' None = 11"
proof -
  have n: "summary_quality (insights_quality (metrics_quality 0 [(''a'', Some (1::int))]) [''x''])
             ''abcde'' = 11"
    by (simp add: summary_quality_def insights_quality_def metrics_quality_def
          insights_with_numbers_def has_number_def isdigit_def)
  show ?thesis
    using n
      result_contribution[of 11 3 2 0 "[(''a'', Some (1::int))]" "[''x'']" "''abcde''"]
      result_contribution[of 11 3 1 3 "[(''a'', Some (1::int))]" "[''x'']" "''abcde''"]
      result_contribution[of 11 0 2 0 "[(''a'', Some (1::int))]" "[''x'']" "''abcde''"]
    by (simp add: py_int_def)
qed

text \<open>
  C3 as stated fails: a result with a length that is not a \<open>DataFrame\<close> (a Series of
  three values, or an empty one) adds 10, not 15 and not 5.
\<close>

theorem sized_result_counterexample:
  "has_len (Sized 3) \<and> len_result (Sized 3) = 3
   \<and> quality_points ([] :: int metrics) [] [] (Some (Sized 3))
       = quality_points ([] :: int metrics) [] [] None + 10
   \<and> calculate_quality_score ([] :: int metrics) [] [] (Some (Sized 3)) = 10
   \<and> has_len (Sized 0) \<and> len_result (Sized 0) = 0
   \<and> calculate_quality_score ([] :: int metrics) [] [] (Some (Sized 0)) = 10"
  by (simp add: quality_points_def result_quality_def summary_quality_def insights_quality_def
        metrics_quality_def calculate_quality_score_def py_int_def)

text \<open>
  C4. A metrics mapping with exactly 5 entries adds 30 to the score, one with exactly 4
  adds 24, an empty one adds nothing and makes \<open>validate_execution_results\<close> return
  \<open>is_valid = False\<close>. The values of the entries play no part, so this holds in particular
  when none of them is \<open>None\<close>.
\<close>

theorem metrics_boundary:
  "(length (m :: 'v metrics) = 5 \<longrightarrow> metrics_quality sc m = sc + 30
        \<and> quality_points m i s r = quality_points ([] :: 'v metrics) i s r + 30)
   \<and> (length m = 4 \<longrightarrow> metrics_quality sc m = sc + 24
        \<and> quality_points m i s r = quality_points ([] :: 'v metrics) i s r + 24)
   \<and> (length m = 0 \<longrightarrow> metrics_quality sc m = sc
        \<and> quality_points m i s r = quality_points ([] :: 'v metrics) i s r + 0
        \<and> \<not> fst (validate_execution_results r m s i))"
proof -
  have a: "length m = 5 \<Longrightarrow> metrics_quality sc' m = sc' + 30" for sc'
    by (auto simp add: metrics_quality_def Let_def)
  have b: "length m = 4 \<Longrightarrow> metrics_quality sc' m = sc' + 24" for sc'
    by (auto simp add: metrics_quality_def Let_def)
  have c: "length m = 0 \<Longrightarrow> metrics_quality sc' m = sc'" for sc'
    by (simp add: metrics_quality_def)
  have d: "length m = 0 \<Longrightarrow> \<not> fst (validate_execution_results r m s i)"
    by (simp add: is_valid_iff)
  have e: "quality_points m i s r = quality_points ([] :: 'v metrics) i s r + metrics_quality 0 m"
    by (rule quality_points_metrics)
  have p5: "length m = 5 \<longrightarrow> metrics_quality sc m = sc + 30
              \<and> quality_points m i s r = quality_points ([] :: 'v metrics) i s r + 30"
    using a[of sc] a[of 0] e by simp
  have p4: "length m = 4 \<longrightarrow> metrics_quality sc m = sc + 24
              \<and> quality_points m i s r = quality_points ([] :: 'v metrics) i s r + 24"
    using b[of sc] b[of 0] e by simp
  have p0: "length m = 0 \<longrightarrow> metrics_quality sc m = sc
              \<and> quality_points m i s r = quality_points ([] :: 'v metrics) i s r + 0
              \<and> \<not> fst (validate_execution_results r m s i)"
    using c[of sc] d by simp
  show ?thesis using p5 p4 p0 by blast
qed

theorem metrics_boundary_witness:
  "length five_metrics = 5 \<and> metrics_quality 0 five_metrics = 30
   \<and> length (tl five_metrics) = 4 \<and> metrics_quality 0 (tl five_metrics) = 24
   \<and> length ([] :: int metrics) = 0 \<and> metrics_quality 0 ([] :: int metrics) = 0
   \<and> \<not> fst (validate_execution_results (Some Scalar) ([] :: int metrics) ''text'' [''one''])"
proof -
  have h5: "length five_metrics = 5" by (simp add: five_metrics_def)
  have h4: "length (tl five_metrics) = 4" by (simp add: five_metrics_def)
  have h0: "length ([] :: int metrics) = 0" by simp
  show ?thesis
    using h5 h4 h0
      metrics_boundary[of five_metrics 0 "[''one'']" "''text''" "Some Scalar"]
      metrics_boundary[of "tl five_metrics" 0 "[''one'']" "''text''" "Some Scalar"]
      metrics_boundary[of "[] :: int metrics" 0 "[''one'']" "''text''" "Some Scalar"]
    by simp
qed

text \<open>
  C5. With 5 metrics, 5 insights that each contain a digit, a summary of 120 characters
  and a \<open>DataFrame\<close> result with at least one row and two columns, the score is exactly 100.
\<close>

theorem full_score_scenario:
  assumes "length m = 5" "length i = 5" "\<forall>x\<in>set i. has_number x"
    and "length s = 120" "rows > 0"
  shows "calculate_quality_score m i s (Some (DataFrame rows 2)) = 100"
proof -
  have m: "metrics_quality 0 m = 30" using assms(1) by (auto simp: metrics_quality_def Let_def)
  have "filter has_number i = i" using assms(3) by (simp add: filter_id_conv)
  then have n: "insights_with_numbers i = 5" using assms(2) by (simp add: insights_with_numbers_def)
  have i: "insights_quality 30 i = 60" using assms(2) n by (auto simp: insights_quality_def Let_def)
  have s: "summary_quality 60 s = 80" using assms(4) by (auto simp: summary_quality_def)
  have r: "result_quality 80 (Some (DataFrame rows 2)) = 100" using assms(5)
    by (simp add: result_quality_def Let_def)
  show ?thesis by (simp add: calculate_quality_score_def quality_points_def m i s r py_int_def)
qed

theorem full_score_scenario_witness:
  "length [(''a'', Some (1::int)), (''b'', Some 2), (''c'', Some 3), (''d'', Some 4), (''e'', Some 5)] = 5
   \<and> length five_insights = 5 \<and> list_all has_number five_insights
   \<and> length (replicate 120 (CHR ''x'')) = 120 \<and> (0::nat) < 7
   \<and> calculate_quality_score
        [(''a'', Some (1::int)), (''b'', Some 2), (''c'', Some 3), (''d'', Some 4), (''e'', Some 5)]
        five_insights (replicate 120 (CHR ''x'')) (Some (DataFrame 7 2)) = 100"
proof -
  have h1: "length [(''a'', Some (1::int)), (''b'', Some 2), (''c'', Some 3), (''d'', Some 4), (''e'', Some 5)] = 5"
    by simp
  have h2: "length five_insights = 5" by (simp add: five_insights_def)
  have h3: "\<forall>x\<in>set five_insights. has_number x"
    by (simp add: five_insights_def has_number_def isdigit_def)
  have h4: "length (replicate 120 (CHR ''x'')) = 120" by simp
  have h5: "(0::nat) < 7" by simp
  show ?thesis
    unfolding list_all_iff
    using h1 h2 h3 h4 h5 full_score_scenario[OF h1 h2 h3 h4 h5] by blast
qed

text \<open>
  C6. On every quadruple of artifacts of the documented types the validator returns, and
  \<open>is_valid\<close> is \<open>False\<close> exactly when a hard condition holds: the result is \<open>None\<close>, the
  metrics mapping is empty, the summary is empty or only whitespace, or the insights list
  is empty. Each soft condition adds its issue to the list and, by the first part, leaves
  \<open>is_valid\<close> as the hard conditions alone decide it: a result of length zero, 1 to 4
  metrics, a metric that is \<open>None\<close>, a summary that is not blank and shorter than 50
  characters, 1 to 4 insights, fewer than 60% of the insights containing a digit.
  Whitespace and digits are what \<open>str.isspace\<close> and \<open>str.isdigit\<close> hold of.
\<close>

theorem validity_hard_soft:
  "validate_any (Plain r) (PyDict m) (PyStr s) (PyList i)
     = Inr (validate_execution_results r m s i)
   \<and> (fst (validate_execution_results r m s i) \<longleftrightarrow>
      \<not> (r = None \<or> m = [] \<or> s = [] \<or> (\<forall>c\<in>set s. isspace c) \<or> i = []))
   \<and> (\<forall>rv. r = Some rv \<and> has_len rv \<and> len_result rv = 0 \<longrightarrow>
         warning_sign @ '' Result is empty - query may have found no matching data''
           \<in> set (snd (validate_execution_results r m s i)))
   \<and> (1 \<le> length m \<and> length m \<le> 4 \<longrightarrow>
         warning_sign @ '' Only '' @ str_nat (length m) @ '' metrics provided, recommended minimum is 5''
           \<in> set (snd (validate_execution_results r m s i)))
   \<and> ((\<exists>k. (k, None) \<in> set m) \<longrightarrow>
         warning_sign @ '' Metrics contain None values: ''
             @ join '', '' (map fst (filter (\<lambda>(k, v). v = None) m))
           \<in> set (snd (validate_execution_results r m s i)))
   \<and> (\<not> (\<forall>c\<in>set s. isspace c) \<and> length s < 50 \<longrightarrow>
         warning_sign @ '' Summary text is very short (less than 50 characters)''
           \<in> set (snd (validate_execution_results r m s i)))
   \<and> (1 \<le> length i \<and> length i \<le> 4 \<longrightarrow>
         warning_sign @ '' Only '' @ str_nat (length i) @ '' insights provided, recommended minimum is 5''
           \<in> set (snd (validate_execution_results r m s i)))
   \<and> (i \<noteq> [] \<and> 10 * insights_with_numbers i < 6 * length i \<longrightarrow>
         warning_sign @ '' Many insights lack specific numbers - they should include concrete data''
           \<in> set (snd (validate_execution_results r m s i)))"
proof -
  have sp: "(s = [] \<or> strip s = []) = (\<forall>c\<in>set s. isspace c)"
    by (auto simp: strip_empty_iff)
  have v: "fst (validate_execution_results r m s i) \<longleftrightarrow>
      \<not> (r = None \<or> m = [] \<or> s = [] \<or> (\<forall>c\<in>set s. isspace c) \<or> i = [])"
    unfolding is_valid_iff using sp by blast
  have s1: "\<forall>rv. r = Some rv \<and> has_len rv \<and> len_result rv = 0 \<longrightarrow>
         warning_sign @ '' Result is empty - query may have found no matching data''
           \<in> set (snd (validate_execution_results r m s i))"
    unfolding issues_eq by (simp add: check_result_def)
  have s2: "1 \<le> length m \<and> length m \<le> 4 \<longrightarrow>
         warning_sign @ '' Only '' @ str_nat (length m) @ '' metrics provided, recommended minimum is 5''
           \<in> set (snd (validate_execution_results r m s i))"
    unfolding issues_eq by (auto simp add: check_metrics_def)
  have s3: "(\<exists>k. (k, None) \<in> set m) \<longrightarrow>
         warning_sign @ '' Metrics contain None values: ''
             @ join '', '' (map fst (filter (\<lambda>(k, v). v = None) m))
           \<in> set (snd (validate_execution_results r m s i))"
  proof
    assume "\<exists>k. (k, None) \<in> set m"
    then obtain k where k: "(k, None) \<in> set m" ..
    then have "(k, None) \<in> set (filter (\<lambda>(k, v). v = None) m)" by simp
    then have "filter (\<lambda>(k, v). v = None) m \<noteq> []" by (metis empty_iff empty_set)
    moreover have "m \<noteq> []" using k by auto
    ultimately show "warning_sign @ '' Metrics contain None values: ''
             @ join '', '' (map fst (filter (\<lambda>(k, v). v = None) m))
           \<in> set (snd (validate_execution_results r m s i))"
      unfolding issues_eq by (simp add: check_none_metrics_def Let_def)
  qed
  have s4: "\<not> (\<forall>c\<in>set s. isspace c) \<and> length s < 50 \<longrightarrow>
         warning_sign @ '' Summary text is very short (less than 50 characters)''
           \<in> set (snd (validate_execution_results r m s i))"
    unfolding issues_eq sp[symmetric] by (simp add: check_summary_def)
  have s5: "1 \<le> length i \<and> length i \<le> 4 \<longrightarrow>
         warning_sign @ '' Only '' @ str_nat (length i) @ '' insights provided, recommended minimum is 5''
           \<in> set (snd (validate_execution_results r m s i))"
    unfolding issues_eq by (auto simp add: check_insights_def)
  have s6: "i \<noteq> [] \<and> 10 * insights_with_numbers i < 6 * length i \<longrightarrow>
         warning_sign @ '' Many insights lack specific numbers - they should include concrete data''
           \<in> set (snd (validate_execution_results r m s i))"
    unfolding issues_eq by (simp add: check_insight_numbers_def sixty_percent)
  have t: "validate_any (Plain r) (PyDict m) (PyStr s) (PyList i)
             = Inr (validate_execution_results r m s i)"
    by (rule validate_any_typed)
  show ?thesis using t v s1 s2 s3 s4 s5 s6 by blast
qed

theorem validity_hard_soft_witness:
  "fst (validate_execution_results (Some (Sized 0)) [(''a'', None :: int option)] ''short'' [''no figures''])
   \<and> set [warning_sign @ '' Result is empty - query may have found no matching data'',
           warning_sign @ '' Only 1 metrics provided, recommended minimum is 5'',
           warning_sign @ '' Metrics contain None values: a'',
           warning_sign @ '' Summary text is very short (less than 50 characters)'',
           warning_sign @ '' Only 1 insights provided, recommended minimum is 5'',
           warning_sign @ '' Many insights lack specific numbers - they should include concrete data'']
       \<subseteq> set (snd (validate_execution_results (Some (Sized 0)) [(''a'', None :: int option)]
                      ''short'' [''no figures'']))"
proof -
  have n1: "str_nat 1 = ''1''" by code_simp
  have h1: "has_len (Sized 0) \<and> len_result (Sized 0) = 0" by simp
  have h2: "(''a'', None :: int option) \<in> set [(''a'', None :: int option)]" by simp
  have h3: "\<not> (\<forall>c\<in>set ''short''. isspace c)" by (simp add: isspace_def)
  have h4: "insights_with_numbers [''no figures''] = 0"
    by (simp add: insights_with_numbers_def has_number_def isdigit_def)
  show ?thesis
    using n1 h1 h2 h3 h4
      validity_hard_soft[of "Some (Sized 0)" "[(''a'', None :: int option)]" "''short''"
        "[''no figures'']"]
    by simp
qed



text \<open>
  C8. \<open>validate_code\<close> returns a list for every code string and every behaviour of the
  parser. When the parser raises \<open>SyntaxError\<close>, the list is the other issues, then the
  syntax-error message with the parser's text, then the warnings; when it raises any
  other exception, the list holds the message that the code could not be parsed.
\<close>

theorem syntax_error_reported:
  "(\<forall>e. parse code = SyntaxError e \<longrightarrow>
      validate_code parse code dfs =
        (security_issues code @ usage_issues code dfs @ output_issues code)
        @ [no_entry_sign @ '' SYNTAX ERROR: '' @ e] @ code_warnings parse code dfs
      \<and> no_entry_sign @ '' SYNTAX ERROR: '' @ e \<in> set (validate_code parse code dfs))
   \<and> (\<forall>e. parse code = OtherException e \<longrightarrow>
        warning_sign @ '' Could not parse code: '' @ e \<in> set (validate_code parse code dfs))"
  by (simp add: validate_code_def code_issues_def code_warnings_def)

theorem syntax_error_reported_witness:
  "no_entry_sign @ '' SYNTAX ERROR: invalid syntax (<unknown>, line 1)''
     \<in> set (validate_code (\<lambda>c. SyntaxError ''invalid syntax (<unknown>, line 1)'')
              ''result = = 1'' [''df_sales''])
   \<and> warning_sign @ '' Could not parse code: source code string cannot contain null bytes''
     \<in> set (validate_code (\<lambda>c. OtherException ''source code string cannot contain null bytes'')
              [CHR 0x00] [''df_sales''])"
  using syntax_error_reported[of "\<lambda>c. SyntaxError ''invalid syntax (<unknown>, line 1)''"
          "''result = = 1''" "[''df_sales'']"]
    syntax_error_reported[of "\<lambda>c. OtherException ''source code string cannot contain null bytes''"
          "[CHR 0x00]" "[''df_sales'']"]
  by simp

text \<open>
  C9, as amended. When running the code does not raise, \<open>execute_generated_code\<close> reads
  the four bindings from the namespace, each the value the code bound to the name or its
  default when the name is unbound (\<open>None\<close> for \<open>result\<close>, the empty mapping for
  \<open>metrics\<close>, the empty string for \<open>summary_text\<close>, the empty list for \<open>insights\<close>), and
  runs \<open>validate_execution_results\<close> on them. If that call returns, which it does whenever
  every value has the type the contract names, the executor returns the four values with
  the captured output and the validator's verdict and issue list. If that call raises,
  the executor raises the same exception and returns nothing. If the code closed the
  capture stream, reading it raises and nothing is returned either. In every case
  \<open>sys.stdout\<close> is restored.
\<close>

theorem success_reads_bindings:
  assumes "out = exec code (initial_locals dfs) (w\<lparr>sys_stdout := captured\<rparr>)"
    and "raised out = None"
    and "result = (case result_var (locals_after out) of None \<Rightarrow> Plain None | Some v \<Rightarrow> v)"
    and "metrics = (case metrics_var (locals_after out) of None \<Rightarrow> PyDict [] | Some v \<Rightarrow> v)"
    and "summary_text
           = (case summary_text_var (locals_after out) of None \<Rightarrow> PyStr [] | Some v \<Rightarrow> v)"
    and "insights = (case insights_var (locals_after out) of None \<Rightarrow> PyList [] | Some v \<Rightarrow> v)"
  shows "(\<not> buffer_closed out \<longrightarrow>
            (\<forall>is_valid issues.
               validate_any result metrics summary_text insights = Inr (is_valid, issues) \<longrightarrow>
               execute_generated_code exec captured code dfs w
                 = (Inr \<lparr> r_result = result, r_metrics = metrics,
                          r_summary_text = summary_text, r_insights = insights,
                          r_output_text = written out, r_is_valid = is_valid,
                          r_validation_issues = issues \<rparr>,
                    (world_after out)\<lparr>sys_stdout := sys_stdout w\<rparr>))
            \<and> (\<forall>e. validate_any result metrics summary_text insights = Inl e \<longrightarrow>
                  execute_generated_code exec captured code dfs w
                    = (Inl e, (world_after out)\<lparr>sys_stdout := sys_stdout w\<rparr>)))
       \<and> (buffer_closed out \<longrightarrow>
            execute_generated_code exec captured code dfs w
              = (Inl (PyException ''ValueError'' ''I/O operation on closed file''),
                 (world_after out)\<lparr>sys_stdout := sys_stdout w\<rparr>))
       \<and> (\<forall>r m s i. result = Plain r \<and> metrics = PyDict m \<and> summary_text = PyStr s
                      \<and> insights = PyList i \<longrightarrow>
            validate_any result metrics summary_text insights
              = Inr (validate_execution_results r m s i))
       \<and> sys_stdout (snd (execute_generated_code exec captured code dfs w)) = sys_stdout w"
proof -
  have open_case: "\<not> buffer_closed out \<longrightarrow>
            (\<forall>is_valid issues.
               validate_any result metrics summary_text insights = Inr (is_valid, issues) \<longrightarrow>
               execute_generated_code exec captured code dfs w
                 = (Inr \<lparr> r_result = result, r_metrics = metrics,
                          r_summary_text = summary_text, r_insights = insights,
                          r_output_text = written out, r_is_valid = is_valid,
                          r_validation_issues = issues \<rparr>,
                    (world_after out)\<lparr>sys_stdout := sys_stdout w\<rparr>))
            \<and> (\<forall>e. validate_any result metrics summary_text insights = Inl e \<longrightarrow>
                  execute_generated_code exec captured code dfs w
                    = (Inl e, (world_after out)\<lparr>sys_stdout := sys_stdout w\<rparr>))"
    using assms by (simp add: execute_generated_code_def Let_def get_or_def getvalue_def)
  have closed_case: "buffer_closed out \<longrightarrow>
            execute_generated_code exec captured code dfs w
              = (Inl (PyException ''ValueError'' ''I/O operation on closed file''),
                 (world_after out)\<lparr>sys_stdout := sys_stdout w\<rparr>)"
    using assms(1,2) by (simp add: execute_generated_code_def Let_def getvalue_def)
  have typed: "\<forall>r m s i. result = Plain r \<and> metrics = PyDict m \<and> summary_text = PyStr s
                      \<and> insights = PyList i \<longrightarrow>
            validate_any result metrics summary_text insights
              = Inr (validate_execution_results r m s i)"
    by (simp add: validate_any_typed)
  have restored: "sys_stdout (snd (execute_generated_code exec captured code dfs w)) = sys_stdout w"
    using assms(1,2)
    by (simp add: execute_generated_code_def Let_def getvalue_def
          split: sum.splits prod.splits)
  show ?thesis using open_case closed_case typed restored by blast
qed

theorem success_reads_bindings_witness:
  "raised (partial_interpreter ''metrics = dict(rows=3)'' (initial_locals [])
            (\<lparr>sys_stdout = 1\<rparr>\<lparr>sys_stdout := 2\<rparr>)) = None
   \<and> \<not> buffer_closed (partial_interpreter ''metrics = dict(rows=3)'' (initial_locals [])
            (\<lparr>sys_stdout = 1\<rparr>\<lparr>sys_stdout := 2\<rparr>))
   \<and> execute_generated_code partial_interpreter 2 ''metrics = dict(rows=3)'' [] \<lparr>sys_stdout = 1\<rparr>
       = (Inr \<lparr> r_result = Plain None, r_metrics = PyDict [(''rows'', Some (3::int))],
                r_summary_text = PyStr [], r_insights = PyList [],
                r_output_text = ''done'',
                r_is_valid = fst (validate_execution_results None [(''rows'', Some (3::int))] [] []),
                r_validation_issues
                  = snd (validate_execution_results None [(''rows'', Some (3::int))] [] []) \<rparr>,
          \<lparr>sys_stdout = 1\<rparr>)
   \<and> \<not> fst (validate_execution_results None [(''rows'', Some (3::int))] [] [])
   \<and> raised (int_summary_interpreter int_summary_code (initial_locals [])
            (\<lparr>sys_stdout = 1\<rparr>\<lparr>sys_stdout := 2\<rparr>)) = None
   \<and> execute_generated_code int_summary_interpreter 2 int_summary_code [] \<lparr>sys_stdout = 1\<rparr>
       = (Inl (attribute_error (PyInt 5 :: int pyval) ''strip''), \<lparr>sys_stdout = 1\<rparr>)
   \<and> raised (closing_interpreter ''import sys; sys.stdout.close()'' (initial_locals [])
            (\<lparr>sys_stdout = 1\<rparr>\<lparr>sys_stdout := 2\<rparr>)) = None
   \<and> buffer_closed (closing_interpreter ''import sys; sys.stdout.close()'' (initial_locals [])
            (\<lparr>sys_stdout = 1\<rparr>\<lparr>sys_stdout := 2\<rparr>))
   \<and> execute_generated_code closing_interpreter 2 ''import sys; sys.stdout.close()'' []
         \<lparr>sys_stdout = 1\<rparr>
       = (Inl (PyException ''ValueError'' ''I/O operation on closed file''), \<lparr>sys_stdout = 1\<rparr>)"
proof -
  let ?out = "partial_interpreter ''metrics = dict(rows=3)'' (initial_locals [])
                (\<lparr>sys_stdout = 1\<rparr>\<lparr>sys_stdout := 2\<rparr>)"
  have h1: "raised ?out = None" by (simp add: partial_interpreter_def)
  have h2: "\<not> buffer_closed ?out" by (simp add: partial_interpreter_def)
  have r: "Plain None = (case result_var (locals_after ?out) of None \<Rightarrow> Plain None | Some v \<Rightarrow> v)"
    by (simp add: partial_interpreter_def initial_locals_def)
  have m: "PyDict [(''rows'', Some (3::int))]
             = (case metrics_var (locals_after ?out) of None \<Rightarrow> PyDict [] | Some v \<Rightarrow> v)"
    by (simp add: partial_interpreter_def initial_locals_def)
  have s: "PyStr [] = (case summary_text_var (locals_after ?out) of None \<Rightarrow> PyStr [] | Some v \<Rightarrow> v)"
    by (simp add: partial_interpreter_def initial_locals_def)
  have i: "PyList [] = (case insights_var (locals_after ?out) of None \<Rightarrow> PyList [] | Some v \<Rightarrow> v)"
    by (simp add: partial_interpreter_def initial_locals_def)
  have w: "world_after ?out = \<lparr>sys_stdout = 2\<rparr>" "written ?out = ''done''"
    by (simp_all add: partial_interpreter_def)
  have v: "\<not> fst (validate_execution_results None [(''rows'', Some (3::int))] [] [])"
    by (simp add: is_valid_iff)
  have part1:
    "execute_generated_code partial_interpreter 2 ''metrics = dict(rows=3)'' [] \<lparr>sys_stdout = 1\<rparr>
       = (Inr \<lparr> r_result = Plain None, r_metrics = PyDict [(''rows'', Some (3::int))],
                r_summary_text = PyStr [], r_insights = PyList [],
                r_output_text = ''done'',
                r_is_valid = fst (validate_execution_results None [(''rows'', Some (3::int))] [] []),
                r_validation_issues
                  = snd (validate_execution_results None [(''rows'', Some (3::int))] [] []) \<rparr>,
          \<lparr>sys_stdout = 1\<rparr>)"
    using h2 w
      success_reads_bindings[where exec = partial_interpreter and captured = 2
        and code = "''metrics = dict(rows=3)''" and dfs = "[]" and w = "\<lparr>sys_stdout = 1\<rparr>",
        OF refl h1 r m s i]
    by (simp add: prod_eq_iff)
  let ?out2 = "int_summary_interpreter int_summary_code (initial_locals [])
                 (\<lparr>sys_stdout = 1\<rparr>\<lparr>sys_stdout := 2\<rparr>)"
  have g1: "raised ?out2 = None" by (simp add: int_summary_interpreter_def)
  have g2: "\<not> buffer_closed ?out2" by (simp add: int_summary_interpreter_def)
  have r2: "Plain (Some Scalar)
              = (case result_var (locals_after ?out2) of None \<Rightarrow> Plain None | Some v \<Rightarrow> v)"
    by (simp add: int_summary_interpreter_def)
  have m2: "PyDict [(''rows'', Some (3::int))]
              = (case metrics_var (locals_after ?out2) of None \<Rightarrow> PyDict [] | Some v \<Rightarrow> v)"
    by (simp add: int_summary_interpreter_def)
  have s2: "PyInt 5 = (case summary_text_var (locals_after ?out2) of None \<Rightarrow> PyStr [] | Some v \<Rightarrow> v)"
    by (simp add: int_summary_interpreter_def)
  have i2: "PyList [''3'']
              = (case insights_var (locals_after ?out2) of None \<Rightarrow> PyList [] | Some v \<Rightarrow> v)"
    by (simp add: int_summary_interpreter_def)
  have w2: "world_after ?out2 = \<lparr>sys_stdout = 2\<rparr>" by (simp add: int_summary_interpreter_def)
  have e2: "validate_any (Plain (Some Scalar)) (PyDict [(''rows'', Some (3::int))]) (PyInt 5)
              (PyList [''3'']) = Inl (attribute_error (PyInt 5 :: int pyval) ''strip'')"
    by (simp add: validate_any_def check_result_any_def check_result_def check_metrics_any_def
          check_none_metrics_any_def check_none_metrics_def check_summary_any_def)
  have part2:
    "execute_generated_code int_summary_interpreter 2 int_summary_code [] \<lparr>sys_stdout = 1\<rparr>
       = (Inl (attribute_error (PyInt 5 :: int pyval) ''strip''), \<lparr>sys_stdout = 1\<rparr>)"
    using g2 w2 e2
      success_reads_bindings[where exec = int_summary_interpreter and captured = 2
        and code = int_summary_code and dfs = "[]" and w = "\<lparr>sys_stdout = 1\<rparr>",
        OF refl g1 r2 m2 s2 i2]
    by simp
  let ?out3 = "closing_interpreter ''import sys; sys.stdout.close()'' (initial_locals [])
                 (\<lparr>sys_stdout = 1\<rparr>\<lparr>sys_stdout := 2\<rparr>)"
  have c1: "raised ?out3 = None" by (simp add: closing_interpreter_def)
  have c2: "buffer_closed ?out3" by (simp add: closing_interpreter_def)
  have w3: "world_after ?out3 = \<lparr>sys_stdout = 2\<rparr>" by (simp add: closing_interpreter_def)
  have part3:
    "execute_generated_code closing_interpreter 2 ''import sys; sys.stdout.close()'' []
         \<lparr>sys_stdout = 1\<rparr>
       = (Inl (PyException ''ValueError'' ''I/O operation on closed file''), \<lparr>sys_stdout = 1\<rparr>)"
    using c2 w3
      success_reads_bindings[where exec = closing_interpreter and captured = 2
        and code = "''import sys; sys.stdout.close()''" and dfs = "[]"
        and w = "\<lparr>sys_stdout = 1\<rparr>", OF refl c1 refl refl refl refl]
    by simp
  show ?thesis using h1 h2 part1 v g1 part2 c1 c2 part3 by blast
qed

text \<open>
  C9 as stated fails: code that ends normally with \<open>summary_text\<close> bound to the integer 5
  makes the validator call \<open>strip\<close> on it, and the executor raises \<open>AttributeError\<close>
  where the claim has it return the bindings.
\<close>

theorem ill_typed_binding_counterexample:
  "raised (int_summary_interpreter int_summary_code (initial_locals [])
            (\<lparr>sys_stdout = 1\<rparr>\<lparr>sys_stdout := 2\<rparr>)) = None
   \<and> summary_text_var (locals_after (int_summary_interpreter int_summary_code (initial_locals [])
            (\<lparr>sys_stdout = 1\<rparr>\<lparr>sys_stdout := 2\<rparr>))) = Some (PyInt 5)
   \<and> execute_generated_code int_summary_interpreter 2 int_summary_code [] \<lparr>sys_stdout = 1\<rparr>
       = (Inl (PyException ''AttributeError''
                 (squote @ ''int'' @ squote @ '' object has no attribute '' @ squote @ ''strip''
                    @ squote)),
          \<lparr>sys_stdout = 1\<rparr>)"
  by (simp add: execute_generated_code_def int_summary_interpreter_def getvalue_def get_or_def
        initial_locals_def validate_any_def check_result_any_def check_result_def
        check_metrics_any_def check_none_metrics_any_def check_none_metrics_def
        check_summary_any_def attribute_error_def Let_def)

text \<open>
  C10. Setting an entry of the metrics mapping (a new key adds an entry) never lowers the
  score, and appending a string to the insights list never lowers it, whatever the other
  artifacts are.
\<close>

theorem score_monotone:
  "calculate_quality_score m i s r \<le> calculate_quality_score (dict_put k v m) i s r
   \<and> calculate_quality_score m i s r \<le> calculate_quality_score m (i @ [x]) s r"
proof
  have "quality_points m i s r \<le> quality_points (dict_put k v m) i s r"
    by (rule points_mono_metrics) (rule length_dict_put)
  then show "calculate_quality_score m i s r \<le> calculate_quality_score (dict_put k v m) i s r"
    unfolding calculate_quality_score_def by (intro min.mono order_refl py_int_mono)
next
  show "calculate_quality_score m i s r \<le> calculate_quality_score m (i @ [x]) s r"
    unfolding calculate_quality_score_def
    by (intro min.mono order_refl py_int_mono points_mono_insights)
qed

theorem score_monotone_witness:
  "calculate_quality_score [(''a'', Some (1::int))] [''x''] ''abcde'' None = 11
   \<and> 11 \<le> calculate_quality_score (dict_put ''b'' (Some 2) [(''a'', Some (1::int))]) [''x''] ''abcde'' None
   \<and> 11 \<le> calculate_quality_score [(''a'', Some (1::int))] ([''x''] @ [''y 2'']) ''abcde'' None"
proof -
  have n: "calculate_quality_score [(''a'', Some (1::int))] [''x''] ''abcde'' None = 11"
    by (simp add: calculate_quality_score_def py_int_def quality_points_def result_quality_def
          summary_quality_def insights_quality_def metrics_quality_def insights_with_numbers_def
          has_number_def isdigit_def)
  show ?thesis
    using n score_monotone[of "[(''a'', Some (1::int))]" "[''x'']" "''abcde''" None
            "''b''" "Some 2" "''y 2''"]
    by simp
qed

end
